theory Spec2Isabelle
  imports Main "HOL-Library.Sublist"
begin

section \<open>JavaScript values\<close>

text \<open>
  The helper handles data whose shape is only known at run time: parsed JSON bodies of
  RPC responses, configuration properties that may be unset, the work value a generator
  hands back. They are modelled by one type of JavaScript values. Numbers are
  restricted to integers, which is all the truthiness test needs (a non-zero integer is
  truthy, \<open>0\<close> is falsy).
\<close>

datatype jsval =
    JUndefined
  | JNull
  | JBool bool
  | JNum int
  | JStr string
  | JArr "jsval list"
  | JObj "(string \<times> jsval) list"

text \<open>ToBoolean, as used by \<open>if (x)\<close> and \<open>!x\<close>.\<close>

fun truthy :: "jsval \<Rightarrow> bool" where
  "truthy JUndefined = False"
| "truthy JNull = False"
| "truthy (JBool b) = b"
| "truthy (JNum n) = (n \<noteq> 0)"
| "truthy (JStr s) = (s \<noteq> [])"
| "truthy (JArr xs) = True"
| "truthy (JObj fs) = True"

fun nullish :: "jsval \<Rightarrow> bool" where
  "nullish JUndefined = True"
| "nullish JNull = True"
| "nullish v = False"

text \<open>
  Reading the property \<open>k\<close> of a value that is not nullish: the field of an object, and
  \<open>undefined\<close> when the object has no such field or the value is a primitive or an
  array (none of the names read by the helper is a built-in property of those).
  Reading a property of \<open>null\<close> or \<open>undefined\<close> raises a TypeError in JavaScript; every
  place where the source can do that is guarded by \<open>nullish\<close> in the model.
\<close>

fun getProp :: "jsval \<Rightarrow> string \<Rightarrow> jsval" where
  "getProp (JObj fs) k = (case map_of fs k of Some v \<Rightarrow> v | None \<Rightarrow> JUndefined)"
| "getProp v k = JUndefined"

fun hasField :: "jsval \<Rightarrow> string \<Rightarrow> bool" where
  "hasField (JObj fs) k = (k \<in> set (map fst fs))"
| "hasField v k = False"

text \<open>The operator \<open>a ?? b\<close>.\<close>

definition nullish_coalesce :: "jsval \<Rightarrow> jsval \<Rightarrow> jsval" where
  "nullish_coalesce a b = (if nullish a then b else a)"

section \<open>Errors\<close>

text \<open>
  Every \<open>throw\<close> of the source constructs \<open>new Error(message)\<close>; hooks and custom
  work generators are taken to throw \<open>Error\<close> objects as well.
\<close>

datatype thrown = Error (message: string)

text \<open>
  Modelled from the spec: the error-code constants of \<open>common.ts\<close>, which is not part of
  the sources at hand. Their values are those of the error-code table of the README.
\<close>

definition ERROR_CONFIG :: string where
  "ERROR_CONFIG = ''error_config''"

definition ERROR_BLOCK_GENERATION :: string where
  "ERROR_BLOCK_GENERATION = ''error_block_generation''"

definition ERROR_NANO_WORK_GENERATION :: string where
  "ERROR_NANO_WORK_GENERATION = ''error_nano_work_generation''"

definition ERROR_NANO_RPC_CONNECTION :: string where
  "ERROR_NANO_RPC_CONNECTION = ''error_nano_rpc_connection''"

definition ERROR_INSUFFICIENT_NANO_BALANCE :: string where
  "ERROR_INSUFFICIENT_NANO_BALANCE = ''error_insufficient_nano_balance''"

text \<open>The message template \<open>[code] text\<close> shared by the throws of the source.\<close>

definition tagged :: "string \<Rightarrow> string \<Rightarrow> string" where
  "tagged code txt = ''['' @ code @ ''] '' @ txt"

text \<open>An error is of the kind \<open>code\<close> when its message starts with \<open>[code]\<close>.\<close>

definition has_code :: "string \<Rightarrow> thrown \<Rightarrow> bool" where
  "has_code code e = prefix (''['' @ code @ '']'') (message e)"

section \<open>Decimal strings and the balance calculator\<close>

text \<open>
  The decimal digits, the position of a digit in the digit alphabet (its value) and the
  digit at a position.
\<close>

definition is_digit :: "char \<Rightarrow> bool" where
  "is_digit c = (c \<in> set ''0123456789'')"

definition digit_val :: "char \<Rightarrow> nat" where
  "digit_val c = length (takeWhile (\<lambda>d. d \<noteq> c) ''0123456789'')"

definition digit_char :: "nat \<Rightarrow> char" where
  "digit_char d = ''0123456789'' ! (d mod 10)"

text \<open>
  Modelled from the spec: the schema \<open>STRING_INT\<close> of the common package, the type of
  ledger amounts and of the parameters of \<open>calculateBalanceAfterSend\<close>; its declaration
  describes it as a string that contains only digits, a non-negative integer.
\<close>

definition STRING_INT :: "string \<Rightarrow> bool" where
  "STRING_INT s = (s \<noteq> [] \<and> list_all is_digit s)"

text \<open>The number a digit string denotes (leading zeros allowed).\<close>

definition nat_of_decimal :: "string \<Rightarrow> nat" where
  "nat_of_decimal s = foldl (\<lambda>acc c. 10 * acc + digit_val c) 0 s"

text \<open>The decimal numeral of a natural number, without leading zeros.\<close>

function decimal_of_nat :: "nat \<Rightarrow> string" where
  "decimal_of_nat n =
     (if n < 10 then [digit_char n]
      else decimal_of_nat (n div 10) @ [digit_char (n mod 10)])"
  by pat_completeness auto
termination
  by (relation "measure id") auto

declare decimal_of_nat.simps [simp del]

text \<open>
  A canonical decimal string: digits only, no leading zero (the string \<open>0\<close> itself
  apart), hence neither a sign nor an exponent.
\<close>

definition canonical :: "string \<Rightarrow> bool" where
  "canonical s = (STRING_INT s \<and> (s = ''0'' \<or> hd s \<noteq> CHR ''0''))"

text \<open>
  The arbitrary-precision library bignumber.js is an external collaborator, taken as
  what it is used for: exact subtraction and comparison of integers. Its values are
  modelled as exact integers or \<open>NaN\<close>. The constructor is modelled on digit strings and
  on integer numbers; signs, fractions, exponents and other bases, which the library
  also reads, lie outside \<open>STRING_INT\<close> and are mapped to \<open>NaN\<close> here, as is every value
  that is neither a string nor a number. The exponent range of the library, beyond
  which a number of many millions of digits becomes infinite, is not modelled.
\<close>

datatype BigNumber = NaN | Num int

definition BigNumber_new :: "jsval \<Rightarrow> BigNumber" where
  "BigNumber_new v =
     (case v of
        JStr s \<Rightarrow> if STRING_INT s then Num (int (nat_of_decimal s)) else NaN
      | JNum n \<Rightarrow> Num n
      | _ \<Rightarrow> NaN)"

definition minus :: "BigNumber \<Rightarrow> jsval \<Rightarrow> BigNumber" where
  "minus x v =
     (case x of
        NaN \<Rightarrow> NaN
      | Num a \<Rightarrow> (case BigNumber_new v of NaN \<Rightarrow> NaN | Num b \<Rightarrow> Num (a - b)))"

definition lt :: "BigNumber \<Rightarrow> int \<Rightarrow> bool" where
  "lt x n = (case x of NaN \<Rightarrow> False | Num a \<Rightarrow> a < n)"

definition toFixed :: "BigNumber \<Rightarrow> string" where
  "toFixed x =
     (case x of
        NaN \<Rightarrow> ''NaN''
      | Num a \<Rightarrow> if a < 0 then ''-'' @ decimal_of_nat (nat (- a)) else decimal_of_nat (nat a))"

definition calculateBalanceAfterSend :: "jsval \<Rightarrow> jsval \<Rightarrow> thrown + string" where
  "calculateBalanceAfterSend currentBalance amountToSend =
     (let bnBalanceAfterSend = minus (BigNumber_new currentBalance) amountToSend
      in if lt bnBalanceAfterSend 0
         then Inl (Error (tagged ERROR_INSUFFICIENT_NANO_BALANCE
                ''Insufficient balance to perform Nano send transaction''))
         else Inr (toFixed bnBalanceAfterSend))"

section \<open>External collaborators\<close>

text \<open>
  The results of \<open>fetch\<close>, as far as \<open>nanoRpcCall\<close> looks at them: the promise rejects
  (transport failure), the request is aborted by the timer, or a response arrives with
  its \<open>ok\<close> flag, its status, its text and its body parsed as JSON (\<open>None\<close> when reading or
  parsing the body fails). Time is not modelled: whether the timer fires first is the
  environment's choice.
\<close>

datatype fetch_outcome =
    FetchRejected string
  | FetchAborted
  | Responded bool nat string "jsval option"

text \<open>A signed send block, as the signing library returns it.\<close>

record NanoSendBlock =
  block_type :: string
  account :: string
  block_previous :: string
  block_representative :: string
  block_balance :: string
  block_link :: string
  block_work :: string
  signature :: string

text \<open>
  What the helper takes from outside: the URL schema and the work threshold of the
  common package, the work verification of the SDK, the key derivation and the signing
  routine \<open>N.createBlock\<close> of the signing library (key, representative, balance, work,
  link, previous), and the network. The network answers a request by its URL, the
  object sent as body and the timeout.
\<close>

record externals =
  URL_safeParse :: "string \<Rightarrow> bool"
  SEND_BLOCK_WORK_THRESHOLD :: string
  verifyWork :: "jsval \<Rightarrow> jsval \<Rightarrow> string \<Rightarrow> bool"
  derivePublicKey :: "jsval \<Rightarrow> thrown + string"
  deriveAddress :: "string \<Rightarrow> thrown + string"
  N_createBlock :: "jsval \<Rightarrow> jsval \<Rightarrow> jsval \<Rightarrow> jsval \<Rightarrow> jsval \<Rightarrow> jsval \<Rightarrow> thrown + NanoSendBlock"
  fetch :: "jsval \<Rightarrow> (string \<times> jsval) list \<Rightarrow> nat \<Rightarrow> fetch_outcome"

text \<open>
  Modelled from the spec: the schema \<open>HEX_64\<close> of the common package, which is not part of
  the sources at hand; its declaration and the error message of the validator describe
  it as 64 hexadecimal characters.
\<close>

definition is_hex :: "char \<Rightarrow> bool" where
  "is_hex c = (c \<in> set ''0123456789abcdefABCDEF'')"

definition HEX_64 :: "string \<Rightarrow> bool" where
  "HEX_64 s = (length s = 64 \<and> list_all is_hex s)"

text \<open>\<open>schema.safeParse(v).success\<close> for a string schema: a value that is not a string fails.\<close>

definition safeParse :: "(string \<Rightarrow> bool) \<Rightarrow> jsval \<Rightarrow> bool" where
  "safeParse schema v = (case v of JStr s \<Rightarrow> schema s | _ \<Rightarrow> False)"

text \<open>
  Modelled from the spec: the constant \<open>NANO_ACCOUNT_PRIVATE_KEY_PROPERTY\<close> of the common
  package, the name of the private-key field of the configuration.
\<close>

definition NANO_ACCOUNT_PRIVATE_KEY_PROPERTY :: string where
  "NANO_ACCOUNT_PRIVATE_KEY_PROPERTY = ''NANO_ACCOUNT_PRIVATE_KEY''"

definition ONE_SECOND :: nat where
  "ONE_SECOND = 1000"

definition ONE_MINUTE :: nat where
  "ONE_MINUTE = 60 * ONE_SECOND"

definition XRB_PREFIX :: string where
  "XRB_PREFIX = ''xrb_''"

definition NANO_PREFIX :: string where
  "NANO_PREFIX = ''nano_''"

section \<open>Configuration validators\<close>

definition validateNanoRpcUrl :: "externals \<Rightarrow> jsval \<Rightarrow> bool \<Rightarrow> thrown + unit" where
  "validateNanoRpcUrl ext url bypassNullCheck =
     (if \<not> bypassNullCheck \<and> \<not> truthy url
      then Inl (Error (tagged ERROR_CONFIG ''NANO_RPC_URL is not set''))
      else if \<not> safeParse (URL_safeParse ext) url
      then Inl (Error (tagged ERROR_CONFIG ''NANO_RPC_URL is not a valid URL''))
      else Inr ())"

definition validateNanoWorkGenerationUrl :: "externals \<Rightarrow> jsval \<Rightarrow> bool \<Rightarrow> thrown + unit" where
  "validateNanoWorkGenerationUrl ext url bypassNullCheck =
     (if \<not> bypassNullCheck \<and> \<not> truthy url
      then Inl (Error (tagged ERROR_CONFIG ''NANO_WORK_GENERATION_URL is not set''))
      else if \<not> safeParse (URL_safeParse ext) url
      then Inl (Error (tagged ERROR_CONFIG ''NANO_WORK_GENERATION_URL is not a valid URL''))
      else Inr ())"

definition validateNanoAccountPrivateKey :: "jsval \<Rightarrow> bool \<Rightarrow> thrown + unit" where
  "validateNanoAccountPrivateKey privateKey bypassNullCheck =
     (if \<not> bypassNullCheck \<and> \<not> truthy privateKey
      then Inl (Error (tagged ERROR_CONFIG (NANO_ACCOUNT_PRIVATE_KEY_PROPERTY @ '' is not set'')))
      else if \<not> safeParse HEX_64 privateKey
      then Inl (Error (tagged ERROR_CONFIG (NANO_ACCOUNT_PRIVATE_KEY_PROPERTY @
             '' is not of a valid format (should be 64 hexadecimal characters)'')))
      else Inr ())"

section \<open>The helper and its configuration\<close>

text \<open>
  The configuration is a JavaScript object: a map from property names to values.
  Reading a property the object does not have gives \<open>undefined\<close>.
\<close>

type_synonym HelperConfig = "string \<rightharpoonup> jsval"

definition readProp :: "HelperConfig \<Rightarrow> string \<Rightarrow> jsval" where
  "readProp c k = (case c k of None \<Rightarrow> JUndefined | Some v \<Rightarrow> v)"

text \<open>
  The context shared with the hooks. A hook may change the context it is given or
  throw: it maps the context to the context it leaves behind, or to the error thrown.
  A custom work generator maps a hash to the work it computed, or throws.
\<close>

record WorkGenerationHookContext =
  representative :: jsval
  balance :: jsval
  link :: jsval
  previous :: jsval
  work :: "jsval option"

type_synonym hook = "WorkGenerationHookContext \<Rightarrow> thrown + WorkGenerationHookContext"

type_synonym WorkGenerator = "jsval \<Rightarrow> thrown + jsval"

record Helper =
  config :: HelperConfig
  beforeWorkGenerationHooks :: "hook list"
  afterWorkGenerationHooks :: "hook list"
  workGenerator :: "WorkGenerator option"

text \<open>
  The constructor. A method of the helper returns its outcome (\<open>Inl\<close> the error thrown)
  together with the helper as the call leaves it, also when it throws.
\<close>

definition Helper_new :: "HelperConfig option \<Rightarrow> Helper" where
  "Helper_new c =
     (case c of
        None \<Rightarrow> \<lparr>config = Map.empty, beforeWorkGenerationHooks = [],
                 afterWorkGenerationHooks = [], workGenerator = None\<rparr>
      | Some cfg \<Rightarrow>
          \<lparr>config = cfg(''NANO_WORK_GENERATION_URL'' \<mapsto>
              nullish_coalesce (readProp cfg ''NANO_WORK_GENERATION_URL'')
                (readProp cfg ''NANO_RPC_URL'')),
           beforeWorkGenerationHooks = [], afterWorkGenerationHooks = [],
           workGenerator = None\<rparr>)"

definition setNanoRpcUrl :: "externals \<Rightarrow> jsval \<Rightarrow> Helper \<Rightarrow> (thrown + unit) \<times> Helper" where
  "setNanoRpcUrl ext url h =
     (case validateNanoRpcUrl ext url True of
        Inl e \<Rightarrow> (Inl e, h)
      | Inr _ \<Rightarrow>
          (let c = (config h)(''NANO_RPC_URL'' \<mapsto> url);
               c' = c(''NANO_WORK_GENERATION_URL'' \<mapsto>
                      nullish_coalesce (readProp c ''NANO_WORK_GENERATION_URL'')
                        (readProp c ''NANO_RPC_URL''))
           in (Inr (), h\<lparr>config := c'\<rparr>)))"

definition setNanoWorkGenerationUrl ::
  "externals \<Rightarrow> jsval \<Rightarrow> Helper \<Rightarrow> (thrown + unit) \<times> Helper" where
  "setNanoWorkGenerationUrl ext url h =
     (case validateNanoWorkGenerationUrl ext url True of
        Inl e \<Rightarrow> (Inl e, h)
      | Inr _ \<Rightarrow> (Inr (), h\<lparr>config := (config h)(''NANO_WORK_GENERATION_URL'' \<mapsto> url)\<rparr>))"

definition setNanoAccountPrivateKey :: "jsval \<Rightarrow> Helper \<Rightarrow> (thrown + unit) \<times> Helper" where
  "setNanoAccountPrivateKey privateKey h =
     (case validateNanoAccountPrivateKey privateKey True of
        Inl e \<Rightarrow> (Inl e, h)
      | Inr _ \<Rightarrow>
          if truthy (readProp (config h) NANO_ACCOUNT_PRIVATE_KEY_PROPERTY)
          then (Inl (Error (tagged ERROR_CONFIG
                  ''Nano account private key already set. Manually clear with clearNanoAccountPrivateKey() first.'')),
                h)
          else (Inr (),
                h\<lparr>config := (config h)(NANO_ACCOUNT_PRIVATE_KEY_PROPERTY \<mapsto> privateKey)\<rparr>))"

definition clearNanoAccountPrivateKey :: "Helper \<Rightarrow> (thrown + unit) \<times> Helper" where
  "clearNanoAccountPrivateKey h =
     (Inr (), h\<lparr>config := (config h)(NANO_ACCOUNT_PRIVATE_KEY_PROPERTY \<mapsto> JUndefined)\<rparr>)"

definition onBeforeWorkGeneration :: "hook \<Rightarrow> Helper \<Rightarrow> Helper" where
  "onBeforeWorkGeneration hook h =
     h\<lparr>beforeWorkGenerationHooks := beforeWorkGenerationHooks h @ [hook]\<rparr>"

definition onAfterWorkGeneration :: "hook \<Rightarrow> Helper \<Rightarrow> Helper" where
  "onAfterWorkGeneration hook h =
     h\<lparr>afterWorkGenerationHooks := afterWorkGenerationHooks h @ [hook]\<rparr>"

text \<open>\<open>getConfig\<close> copies every property of the configuration but the private key.\<close>

definition getConfig :: "Helper \<Rightarrow> HelperConfig" where
  "getConfig h = config h |` (- {''NANO_ACCOUNT_PRIVATE_KEY''})"

text \<open>
  The two states of the credential, told apart the way \<open>setNanoAccountPrivateKey\<close> does it:
  a key is set when the private-key property of the configuration is truthy.
\<close>

definition keySet :: "Helper \<Rightarrow> bool" where
  "keySet h = truthy (readProp (config h) NANO_ACCOUNT_PRIVATE_KEY_PROPERTY)"

section \<open>Effects\<close>

text \<open>
  A call that reaches outside the helper is recorded as an event: a request sent with
  \<open>fetch\<close> (URL, body object, timeout), a call of the custom work generator (hash), a call
  of a before-hook or an after-hook (its position in the registry and the context it
  receives), and a call of the signing routine with its arguments. An asynchronous
  function of the source is a value of type \<open>io\<close>: the events it caused, in order, and its
  outcome. Awaiting one call after another is \<open>io_bind\<close>: an error ends the sequence.
\<close>

datatype event =
    Fetch jsval "(string \<times> jsval) list" nat
  | CustomWorkGeneratorCall jsval
  | BeforeHookCall nat WorkGenerationHookContext
  | AfterHookCall nat WorkGenerationHookContext
  | SignCall jsval jsval jsval jsval jsval jsval

type_synonym 'a io = "event list \<times> (thrown + 'a)"

definition io_return :: "'a \<Rightarrow> 'a io" where
  "io_return x = ([], Inr x)"

definition io_throw :: "thrown \<Rightarrow> 'a io" where
  "io_throw e = ([], Inl e)"

definition io_bind :: "'a io \<Rightarrow> ('a \<Rightarrow> 'b io) \<Rightarrow> 'b io" where
  "io_bind m f =
     (case m of
        (tr, Inl e) \<Rightarrow> (tr, Inl e)
      | (tr, Inr x) \<Rightarrow> (case f x of (tr', r) \<Rightarrow> (tr @ tr', r)))"

fun is_work_request :: "event \<Rightarrow> bool" where
  "is_work_request (Fetch url body t) = (map_of body ''action'' = Some (JStr ''work_generate''))"
| "is_work_request (CustomWorkGeneratorCall hash) = True"
| "is_work_request ev = False"

fun is_before_hook :: "event \<Rightarrow> bool" where
  "is_before_hook (BeforeHookCall i c) = True"
| "is_before_hook ev = False"

fun is_sign :: "event \<Rightarrow> bool" where
  "is_sign (SignCall k r b w l p) = True"
| "is_sign ev = False"

fun hook_index :: "event \<Rightarrow> nat" where
  "hook_index (BeforeHookCall i c) = i"
| "hook_index (AfterHookCall i c) = i"
| "hook_index ev = 0"

section \<open>The RPC client\<close>

text \<open>
  The object \<open>{ action, ...params }\<close> sent as body: \<open>action\<close> comes first, and a property
  \<open>action\<close> of \<open>params\<close> would override it.
\<close>

definition request_body :: "string \<Rightarrow> (string \<times> jsval) list \<Rightarrow> (string \<times> jsval) list" where
  "request_body action params =
     (''action'', case map_of params ''action'' of None \<Rightarrow> JStr action | Some v \<Rightarrow> v) #
     filter (\<lambda>kv. fst kv \<noteq> ''action'') params"

text \<open>What can go wrong inside the \<open>try\<close> block of \<open>nanoRpcCall\<close>, with the detail at hand.\<close>

datatype rpc_failure =
    TransportFailure string
  | TimedOut
  | HttpStatus nat string
  | BodyUnreadable
  | NullBody
  | JsonError jsval

text \<open>
  The \<open>try\<close> block: the status check, the parsing of the body and the test of its \<open>error\<close>
  property (reading a property of the body \<open>null\<close> is a TypeError).
\<close>

definition nanoRpcCall_try ::
  "externals \<Rightarrow> jsval \<Rightarrow> (string \<times> jsval) list \<Rightarrow> nat \<Rightarrow> rpc_failure + jsval" where
  "nanoRpcCall_try ext url body timeout =
     (case fetch ext url body timeout of
        FetchRejected detail \<Rightarrow> Inl (TransportFailure detail)
      | FetchAborted \<Rightarrow> Inl TimedOut
      | Responded ok status txt parsed \<Rightarrow>
          if \<not> ok then Inl (HttpStatus status txt)
          else (case parsed of
                  None \<Rightarrow> Inl BodyUnreadable
                | Some json \<Rightarrow>
                    if nullish json then Inl NullBody
                    else if truthy (getProp json ''error'') then Inl (JsonError (getProp json ''error''))
                    else Inr json))"

text \<open>
  The whole call: the \<open>catch\<close> block replaces whatever was thrown by one of two messages.
  The parameters \<open>timeout\<close> and \<open>isGeneratingWork\<close> are optional, with defaults.
\<close>

definition nanoRpcCall ::
  "externals \<Rightarrow> jsval \<Rightarrow> string \<Rightarrow> (string \<times> jsval) list \<Rightarrow> nat option \<Rightarrow> bool option \<Rightarrow>
   jsval io" where
  "nanoRpcCall ext url action params timeout isGeneratingWork =
     (let timeout' = (case timeout of None \<Rightarrow> ONE_MINUTE | Some t \<Rightarrow> t);
          isGeneratingWork' = (case isGeneratingWork of None \<Rightarrow> False | Some b \<Rightarrow> b);
          body = request_body action params
      in ([Fetch url body timeout'],
          case nanoRpcCall_try ext url body timeout' of
            Inl detail \<Rightarrow>
              Inl (Error (tagged
                (if isGeneratingWork' then ERROR_NANO_WORK_GENERATION
                 else ERROR_NANO_RPC_CONNECTION)
                (''Could not connect to '' @
                 (if isGeneratingWork' then ''Nano Work Generation URL'' else ''Nano RPC URL''))))
          | Inr json \<Rightarrow> Inr json))"

section \<open>The work generator\<close>

text \<open>
  The part of \<open>workGenerate\<close> that obtains the work: the custom generator when there is
  one, the \<open>work_generate\<close> request otherwise, with an error of either wrapped into a
  work-generation error. The response of a successful RPC call is never nullish, so
  reading its \<open>work\<close> property cannot fail.
\<close>

definition obtainWork :: "externals \<Rightarrow> HelperConfig \<Rightarrow> jsval \<Rightarrow> WorkGenerator option \<Rightarrow> jsval io" where
  "obtainWork ext cfg hash generator =
     (case generator of
        Some customGenerator \<Rightarrow>
          ([CustomWorkGeneratorCall hash],
           case customGenerator hash of
             Inl error \<Rightarrow>
               Inl (Error (tagged ERROR_NANO_WORK_GENERATION
                      (''Error during custom work generation \<newline>Cause: '' @ message error)))
           | Inr wk \<Rightarrow> Inr wk)
      | None \<Rightarrow>
          (let workGenerationUrl =
                 nullish_coalesce (readProp cfg ''NANO_WORK_GENERATION_URL'')
                   (readProp cfg ''NANO_RPC_URL'')
           in case nanoRpcCall ext workGenerationUrl ''work_generate'' [(''hash'', hash)]
                     (Some (5 * ONE_MINUTE)) (Some True) of
                (tr, Inl error) \<Rightarrow>
                  (tr, Inl (Error (tagged ERROR_NANO_WORK_GENERATION
                         (''Error during work generation \<newline>Cause: '' @ message error))))
              | (tr, Inr workGenerateResponse) \<Rightarrow>
                  (tr, Inr (getProp workGenerateResponse ''work''))))"

definition workGenerate ::
  "externals \<Rightarrow> HelperConfig \<Rightarrow> jsval \<Rightarrow> string option \<Rightarrow> WorkGenerator option \<Rightarrow> jsval io" where
  "workGenerate ext cfg hash threshold generator =
     (let threshold' = (case threshold of None \<Rightarrow> SEND_BLOCK_WORK_THRESHOLD ext | Some t \<Rightarrow> t)
      in io_bind (obtainWork ext cfg hash generator) (\<lambda>wk.
           let isWorkValid = verifyWork ext hash wk threshold'
           in if isWorkValid then io_return wk
              else io_throw (Error (tagged ERROR_NANO_WORK_GENERATION
                     ''Generated work is not valid''))))"

section \<open>The block builder\<close>

text \<open>
  The names \<open>config\<close>, \<open>work\<close> and \<open>workGenerator\<close> are fields of records here, so the
  parameters and variables of these names are written \<open>cfg\<close>, \<open>wk\<close> and \<open>generator\<close>.

  The two loops over the hooks. The before-hooks receive the shared context one after
  the other; each after-hook receives the context with the work assigned to it
  (\<open>Object.assign(context, { work })\<close>). The first hook that throws ends the loop.
\<close>

fun runBeforeHooks ::
  "nat \<Rightarrow> hook list \<Rightarrow> WorkGenerationHookContext \<Rightarrow> WorkGenerationHookContext io" where
  "runBeforeHooks i [] context = io_return context"
| "runBeforeHooks i (beforeWorkGenerationHook # rest) context =
     io_bind ([BeforeHookCall i context], beforeWorkGenerationHook context)
       (runBeforeHooks (Suc i) rest)"

fun runAfterHooks ::
  "nat \<Rightarrow> hook list \<Rightarrow> jsval \<Rightarrow> WorkGenerationHookContext \<Rightarrow> WorkGenerationHookContext io" where
  "runAfterHooks i [] wk context = io_return context"
| "runAfterHooks i (afterWorkGenerationHook # rest) wk context =
     io_bind ([AfterHookCall i (context\<lparr>work := Some wk\<rparr>)],
              afterWorkGenerationHook (context\<lparr>work := Some wk\<rparr>))
       (runAfterHooks (Suc i) rest wk)"

definition createBlock ::
  "externals \<Rightarrow> HelperConfig \<Rightarrow> jsval \<Rightarrow> jsval \<Rightarrow> jsval \<Rightarrow> jsval \<Rightarrow> hook list \<Rightarrow> hook list \<Rightarrow>
   WorkGenerator option \<Rightarrow> NanoSendBlock io" where
  "createBlock ext cfg rep bal lnk prev beforeHooks afterHooks generator =
     io_bind (runBeforeHooks 0 beforeHooks
                \<lparr>representative = rep, balance = bal, link = lnk, previous = prev,
                 work = None\<rparr>) (\<lambda>context.
     io_bind (workGenerate ext cfg prev None generator) (\<lambda>wk.
     io_bind (runAfterHooks 0 afterHooks wk context) (\<lambda>context'.
       if truthy wk
       then io_bind
              ([SignCall (readProp cfg NANO_ACCOUNT_PRIVATE_KEY_PROPERTY) rep bal wk lnk prev],
               N_createBlock ext (readProp cfg NANO_ACCOUNT_PRIVATE_KEY_PROPERTY)
                 rep bal wk lnk prev) (\<lambda>block.
              io_return
                (if prefix XRB_PREFIX (account block)
                 then block\<lparr>account := NANO_PREFIX @ drop (length XRB_PREFIX) (account block)\<rparr>
                 else block))
       else io_throw (Error (tagged ERROR_NANO_WORK_GENERATION
              ''No work generated during creation of Nano send block'')))))"

section \<open>Account information and send blocks\<close>

definition getAccount :: "externals \<Rightarrow> HelperConfig \<Rightarrow> thrown + string" where
  "getAccount ext cfg =
     (case derivePublicKey ext (readProp cfg NANO_ACCOUNT_PRIVATE_KEY_PROPERTY) of
        Inl e \<Rightarrow> Inl e
      | Inr publicKey \<Rightarrow> deriveAddress ext publicKey)"

definition getAccountInfo :: "externals \<Rightarrow> Helper \<Rightarrow> jsval \<Rightarrow> jsval io" where
  "getAccountInfo ext h acct =
     io_bind ([], validateNanoRpcUrl ext (readProp (config h) ''NANO_RPC_URL'') False) (\<lambda>_.
       nanoRpcCall ext (readProp (config h) ''NANO_RPC_URL'') ''account_info''
         [(''account'', acct), (''representative'', JStr ''true'')] None None)"

text \<open>
  \<open>generateSendBlock\<close> with its parameters \<open>payTo\<close> and \<open>amount\<close>. The account information is
  the response of a successful RPC call, hence not nullish: reading its properties
  cannot fail.
\<close>

definition generateSendBlock :: "externals \<Rightarrow> Helper \<Rightarrow> string \<Rightarrow> string \<Rightarrow> NanoSendBlock io" where
  "generateSendBlock ext h payTo amount =
     io_bind ([], validateNanoRpcUrl ext (readProp (config h) ''NANO_RPC_URL'') False) (\<lambda>_.
     io_bind ([], validateNanoAccountPrivateKey
                    (readProp (config h) NANO_ACCOUNT_PRIVATE_KEY_PROPERTY) False) (\<lambda>_.
     io_bind ([], validateNanoWorkGenerationUrl ext
                    (readProp (config h) ''NANO_WORK_GENERATION_URL'') False) (\<lambda>_.
     io_bind ([], getAccount ext (config h)) (\<lambda>sourceAccount.
     io_bind (getAccountInfo ext h (JStr sourceAccount)) (\<lambda>sourceAccountInfo.
       let amountToSend = JStr amount;
           currentBalance = getProp sourceAccountInfo ''balance''
       in if \<not> truthy (getProp sourceAccountInfo ''frontier'')
          then io_throw (Error (tagged ERROR_BLOCK_GENERATION
                 ''Source account has no frontier (unopened account)''))
          else
            io_bind ([], calculateBalanceAfterSend currentBalance amountToSend)
              (\<lambda>balanceAfterSend.
                 createBlock ext (config h)
                   (getProp sourceAccountInfo ''representative'')
                   (JStr balanceAfterSend) (JStr payTo)
                   (getProp sourceAccountInfo ''frontier'')
                   (beforeWorkGenerationHooks h) (afterWorkGenerationHooks h)
                   (workGenerator h)))))))"

section \<open>Sample values\<close>

text \<open>
  The sample keys and URLs of the test suite, a configuration made of them, and an
  environment to run the definitions in. The environment takes a URL to be valid when
  it starts with \<open>https://\<close> and goes on, accepts one work value, derives keys and addresses
  by simple string operations and signs by copying its arguments into a block. Its network
  answers by the action requested: an account without frontier to \<open>account_info\<close>, a work
  value that does not verify to \<open>work_generate\<close>, a body with an empty \<open>error\<close> string to
  \<open>process\<close>, a body with an error message to \<open>block_info\<close>, the body \<open>null\<close> to \<open>version\<close>, and
  no connection to anything else.
\<close>

definition SAMPLE_NANO_ACCOUNT_PRIVATE_KEY :: string where
  "SAMPLE_NANO_ACCOUNT_PRIVATE_KEY =
     ''D9E8DABBE4D0C34408C6662CBAD2152C091568BDC6A0A0C07DB188B8C00DCC83''"

definition SAMPLE_NANO_ACCOUNT_PRIVATE_KEY_2 :: string where
  "SAMPLE_NANO_ACCOUNT_PRIVATE_KEY_2 =
     ''614D9DEBE870D30EFCABF74927E688FD2C3261486B7BAA8E10E3D642E4F5EDBC''"

definition SAMPLE_NANO_RPC_URL :: string where
  "SAMPLE_NANO_RPC_URL = ''https://sample-nano-rpc-url''"

definition SAMPLE_NANO_WORK_GENERATION_URL :: string where
  "SAMPLE_NANO_WORK_GENERATION_URL = ''https://sample-nano-work-generation-url''"

definition sample_config :: HelperConfig where
  "sample_config =
     [NANO_ACCOUNT_PRIVATE_KEY_PROPERTY \<mapsto> JStr SAMPLE_NANO_ACCOUNT_PRIVATE_KEY,
      ''NANO_RPC_URL'' \<mapsto> JStr SAMPLE_NANO_RPC_URL,
      ''NANO_WORK_GENERATION_URL'' \<mapsto> JStr SAMPLE_NANO_WORK_GENERATION_URL]"

definition sample_fetch :: "jsval \<Rightarrow> (string \<times> jsval) list \<Rightarrow> nat \<Rightarrow> fetch_outcome" where
  "sample_fetch url body t =
     (if map_of body ''action'' = Some (JStr ''account_info'')
      then Responded True 200 []
             (Some (JObj [(''balance'', JStr ''50''), (''representative'', JStr ''nano_rep'')]))
      else if map_of body ''action'' = Some (JStr ''work_generate'')
      then Responded True 200 [] (Some (JObj [(''work'', JStr ''0000000000000000'')]))
      else if map_of body ''action'' = Some (JStr ''process'')
      then Responded True 200 [] (Some (JObj [(''error'', JStr [])]))
      else if map_of body ''action'' = Some (JStr ''block_info'')
      then Responded True 200 [] (Some (JObj [(''error'', JStr ''Block not found'')]))
      else if map_of body ''action'' = Some (JStr ''version'')
      then Responded True 200 [] (Some JNull)
      else FetchRejected ''unreachable'')"

definition text_of :: "jsval \<Rightarrow> string" where
  "text_of v = (case v of JStr s \<Rightarrow> s | _ \<Rightarrow> [])"

definition sample_externals :: externals where
  "sample_externals =
     \<lparr>URL_safeParse = (\<lambda>s. prefix ''https://'' s \<and> 8 < length s),
      SEND_BLOCK_WORK_THRESHOLD = ''fffffff800000000'',
      verifyWork = (\<lambda>hash wk threshold. wk = JStr ''baeb18003600c19c''),
      derivePublicKey =
        (\<lambda>k. case k of JStr s \<Rightarrow> Inr (rev s) | _ \<Rightarrow> Inl (Error ''Secret key is not valid'')),
      deriveAddress = (\<lambda>p. Inr (''xrb_'' @ p)),
      N_createBlock =
        (\<lambda>k rep bal wk lnk prev.
           case k of
             JStr s \<Rightarrow>
               Inr \<lparr>block_type = ''state'', account = ''xrb_'' @ rev s,
                    block_previous = text_of prev, block_representative = text_of rep,
                    block_balance = text_of bal, block_link = text_of lnk,
                    block_work = text_of wk, signature = ''signed''\<rparr>
           | _ \<Rightarrow> Inl (Error ''Secret key is not valid'')),
      fetch = sample_fetch\<rparr>"

definition sample_helper :: Helper where
  "sample_helper =
     snd (setNanoAccountPrivateKey (JStr SAMPLE_NANO_ACCOUNT_PRIVATE_KEY) (Helper_new None))"

definition configured_helper :: Helper where
  "configured_helper = Helper_new (Some sample_config)"

definition sample_work_generator :: WorkGenerator where
  "sample_work_generator hash = Inr (JStr ''baeb18003600c19c'')"

definition passing_hook :: hook where
  "passing_hook context = Inr context"

definition failing_hook :: hook where
  "failing_hook context = Inl (Error ''hook failed'')"

section \<open>Properties of decimal strings\<close>

lemma digit_below_ten: "(d::nat) < 10 \<Longrightarrow> d \<in> {0, 1, 2, 3, 4, 5, 6, 7, 8, 9}"
  by auto

lemma digit_val_digit_char: "d < 10 \<Longrightarrow> digit_val (digit_char d) = d"
  using digit_below_ten [of d] by (auto simp: digit_val_def digit_char_def)

lemma is_digit_digit_char: "is_digit (digit_char d)"
  using digit_below_ten [of "d mod 10"] by (auto simp: is_digit_def digit_char_def)

lemma digit_char_zero_iff: "d < 10 \<Longrightarrow> digit_char d = CHR ''0'' \<longleftrightarrow> d = 0"
  using digit_below_ten [of d] by (auto simp: digit_char_def)

lemma nat_of_decimal_snoc:
  "nat_of_decimal (s @ [c]) = 10 * nat_of_decimal s + digit_val c"
  by (simp add: nat_of_decimal_def)

lemma decimal_of_nat_small: "n < 10 \<Longrightarrow> decimal_of_nat n = [digit_char n]"
  by (simp add: decimal_of_nat.simps)

lemma decimal_of_nat_large:
  "10 \<le> n \<Longrightarrow> decimal_of_nat n = decimal_of_nat (n div 10) @ [digit_char (n mod 10)]"
  by (subst decimal_of_nat.simps) simp

lemma decimal_of_nat_not_empty: "decimal_of_nat n \<noteq> []"
  by (subst decimal_of_nat.simps) simp

lemma decimal_of_nat_digits: "list_all is_digit (decimal_of_nat n)"
proof (induction n rule: decimal_of_nat.induct)
  case (1 n)
  show ?case
  proof (cases "n < 10")
    case True
    then show ?thesis by (simp add: decimal_of_nat_small is_digit_digit_char)
  next
    case False
    with 1 show ?thesis by (simp add: decimal_of_nat_large is_digit_digit_char)
  qed
qed

lemma nat_of_decimal_of_nat: "nat_of_decimal (decimal_of_nat n) = n"
proof (induction n rule: decimal_of_nat.induct)
  case (1 n)
  show ?case
  proof (cases "n < 10")
    case True
    then show ?thesis
      by (simp add: decimal_of_nat_small nat_of_decimal_def digit_val_digit_char)
  next
    case False
    with 1 have "nat_of_decimal (decimal_of_nat (n div 10)) = n div 10" by simp
    with False show ?thesis
      by (simp add: decimal_of_nat_large nat_of_decimal_snoc digit_val_digit_char)
  qed
qed

lemma decimal_of_nat_no_leading_zero: "0 < n \<Longrightarrow> hd (decimal_of_nat n) \<noteq> CHR ''0''"
proof (induction n rule: decimal_of_nat.induct)
  case (1 n)
  show ?case
  proof (cases "n < 10")
    case True
    with "1.prems" show ?thesis
      by (simp add: decimal_of_nat_small digit_char_zero_iff)
  next
    case False
    then have "0 < n div 10" by simp
    with 1 False have "hd (decimal_of_nat (n div 10)) \<noteq> CHR ''0''" by simp
    with False show ?thesis
      by (simp add: decimal_of_nat_large decimal_of_nat_not_empty)
  qed
qed

lemma decimal_of_nat_zero: "decimal_of_nat 0 = ''0''"
  by (simp add: decimal_of_nat_small digit_char_def)

lemma canonical_decimal_of_nat: "canonical (decimal_of_nat n)"
proof (cases "n = 0")
  case True
  then show ?thesis by (simp add: canonical_def STRING_INT_def decimal_of_nat_zero is_digit_def)
next
  case False
  then show ?thesis
    by (simp add: canonical_def STRING_INT_def decimal_of_nat_not_empty
        decimal_of_nat_digits decimal_of_nat_no_leading_zero)
qed

text \<open>A canonical string is determined by the number it denotes.\<close>

lemma decimal_of_nat_of_decimal:
  "list_all is_digit s \<Longrightarrow> s \<noteq> [] \<Longrightarrow> s = ''0'' \<or> hd s \<noteq> CHR ''0'' \<Longrightarrow>
   decimal_of_nat (nat_of_decimal s) = s"
proof (induction s rule: rev_induct)
  case Nil
  then show ?case by simp
next
  case (snoc c s)
  have c: "is_digit c" and cv: "digit_val c < 10"
    using snoc.prems(1) by (auto simp: is_digit_def digit_val_def)
  have cc: "digit_char (digit_val c) = c"
    using c by (auto simp: is_digit_def digit_val_def digit_char_def)
  show ?case
  proof (cases "s = []")
    case True
    with cv cc show ?thesis
      by (simp add: nat_of_decimal_def decimal_of_nat_small)
  next
    case False
    with snoc.prems have hd: "hd s \<noteq> CHR ''0''" by (cases s) auto
    from snoc.prems(1) have ds: "list_all is_digit s" by simp
    from snoc.IH [OF ds False] hd have IH: "decimal_of_nat (nat_of_decimal s) = s" by simp
    have pos: "0 < nat_of_decimal s"
    proof (rule ccontr)
      assume "\<not> 0 < nat_of_decimal s"
      then have "nat_of_decimal s = 0" by simp
      with IH have "s = ''0''" by (simp add: decimal_of_nat_zero)
      with hd show False by simp
    qed
    have "10 \<le> 10 * nat_of_decimal s + digit_val c" using pos by simp
    moreover have "(10 * nat_of_decimal s + digit_val c) div 10 = nat_of_decimal s"
      using cv by simp
    moreover have "(10 * nat_of_decimal s + digit_val c) mod 10 = digit_val c"
      using cv by simp
    ultimately show ?thesis
      by (simp add: nat_of_decimal_snoc decimal_of_nat_large IH cc)
  qed
qed

section \<open>The balance calculator\<close>

lemma calculateBalanceAfterSend_digits:
  assumes "STRING_INT a" and "STRING_INT b"
  shows "calculateBalanceAfterSend (JStr a) (JStr b) =
           (if nat_of_decimal a < nat_of_decimal b
            then Inl (Error (tagged ERROR_INSUFFICIENT_NANO_BALANCE
                   ''Insufficient balance to perform Nano send transaction''))
            else Inr (decimal_of_nat (nat_of_decimal a - nat_of_decimal b)))"
  using assms
  by (simp add: calculateBalanceAfterSend_def BigNumber_new_def minus_def lt_def toFixed_def
      Let_def nat_diff_distrib' del: of_nat_diff flip: of_nat_diff)

text \<open>
  Claim C1. For digit strings \<open>a\<close> and \<open>b\<close> (non-negative integers in decimal),
  \<open>calculateBalanceAfterSend\<close> returns, whenever \<open>b \<le> a\<close>, a canonical decimal string (digits
  only, no leading zero) that denotes exactly \<open>a - b\<close>, and it is the only canonical string
  that does; whenever \<open>a < b\<close> it throws the insufficient-balance error and returns
  nothing.
\<close>

theorem calculateBalanceAfterSend_exact:
  assumes "STRING_INT a" and "STRING_INT b"
  shows "(nat_of_decimal b \<le> nat_of_decimal a \<longrightarrow>
            (\<exists>s. calculateBalanceAfterSend (JStr a) (JStr b) = Inr s \<and> canonical s \<and>
                 int (nat_of_decimal s) = int (nat_of_decimal a) - int (nat_of_decimal b) \<and>
                 (\<forall>t. canonical t \<and> nat_of_decimal t = nat_of_decimal s \<longrightarrow> t = s))) \<and>
         (nat_of_decimal a < nat_of_decimal b \<longrightarrow>
            (\<exists>e. calculateBalanceAfterSend (JStr a) (JStr b) = Inl e \<and>
                 has_code ERROR_INSUFFICIENT_NANO_BALANCE e))"
proof (intro conjI impI)
  assume le: "nat_of_decimal b \<le> nat_of_decimal a"
  let ?s = "decimal_of_nat (nat_of_decimal a - nat_of_decimal b)"
  have r: "calculateBalanceAfterSend (JStr a) (JStr b) = Inr ?s"
    using le by (simp add: calculateBalanceAfterSend_digits [OF assms])
  have v: "int (nat_of_decimal ?s) = int (nat_of_decimal a) - int (nat_of_decimal b)"
    using le by (simp add: nat_of_decimal_of_nat)
  have u: "\<forall>t. canonical t \<and> nat_of_decimal t = nat_of_decimal ?s \<longrightarrow> t = ?s"
  proof (intro allI impI)
    fix t
    assume t: "canonical t \<and> nat_of_decimal t = nat_of_decimal ?s"
    then have "decimal_of_nat (nat_of_decimal t) = t"
      by (intro decimal_of_nat_of_decimal) (auto simp: canonical_def STRING_INT_def)
    with t show "t = ?s" by (simp add: nat_of_decimal_of_nat)
  qed
  from r v u canonical_decimal_of_nat
  show "\<exists>s. calculateBalanceAfterSend (JStr a) (JStr b) = Inr s \<and> canonical s \<and>
            int (nat_of_decimal s) = int (nat_of_decimal a) - int (nat_of_decimal b) \<and>
            (\<forall>t. canonical t \<and> nat_of_decimal t = nat_of_decimal s \<longrightarrow> t = s)"
    by blast
next
  assume "nat_of_decimal a < nat_of_decimal b"
  then show "\<exists>e. calculateBalanceAfterSend (JStr a) (JStr b) = Inl e \<and>
                 has_code ERROR_INSUFFICIENT_NANO_BALANCE e"
    by (simp add: calculateBalanceAfterSend_digits [OF assms] has_code_def tagged_def)
qed

theorem calculateBalanceAfterSend_exact_witness:
  "STRING_INT ''50'' \<and> STRING_INT ''30'' \<and>
   nat_of_decimal ''30'' \<le> nat_of_decimal ''50'' \<and>
   calculateBalanceAfterSend (JStr ''50'') (JStr ''30'') = Inr ''20'' \<and>
   nat_of_decimal ''1000000000000000000000000000000'' < nat_of_decimal ''2000000000000000000000000000000'' \<and>
   (\<exists>e. calculateBalanceAfterSend (JStr ''1000000000000000000000000000000'')
          (JStr ''2000000000000000000000000000000'') = Inl e \<and>
        has_code ERROR_INSUFFICIENT_NANO_BALANCE e)"
proof -
  have a: "STRING_INT ''50''" and b: "STRING_INT ''30''"
    by (simp_all add: STRING_INT_def is_digit_def)
  have le: "nat_of_decimal ''30'' \<le> nat_of_decimal ''50''"
    by (simp add: nat_of_decimal_def digit_val_def)
  from calculateBalanceAfterSend_exact [OF a b] le
  obtain s where s: "calculateBalanceAfterSend (JStr ''50'') (JStr ''30'') = Inr s"
    and u: "\<forall>t. canonical t \<and> nat_of_decimal t = nat_of_decimal s \<longrightarrow> t = s"
    and v: "int (nat_of_decimal s) = int (nat_of_decimal ''50'') - int (nat_of_decimal ''30'')"
    by blast
  have "nat_of_decimal s = 20"
    using v by (simp add: nat_of_decimal_def digit_val_def)
  moreover have "canonical ''20''" and "nat_of_decimal ''20'' = 20"
    by (simp_all add: canonical_def STRING_INT_def is_digit_def nat_of_decimal_def digit_val_def)
  ultimately have "''20'' = s" using u by simp
  with s have r: "calculateBalanceAfterSend (JStr ''50'') (JStr ''30'') = Inr ''20''" by simp
  have c: "STRING_INT ''1000000000000000000000000000000''"
    and d: "STRING_INT ''2000000000000000000000000000000''"
    by (simp_all add: STRING_INT_def is_digit_def)
  have lt: "nat_of_decimal ''1000000000000000000000000000000''
              < nat_of_decimal ''2000000000000000000000000000000''"
    by (simp add: nat_of_decimal_def digit_val_def)
  from calculateBalanceAfterSend_exact [OF c d] lt a b le r show ?thesis by blast
qed

section \<open>The configuration validators\<close>

lemma has_code_tagged: "has_code code (Error (tagged code txt))"
  by (simp add: has_code_def tagged_def)

lemma safeParse_truthy: "\<not> schema [] \<Longrightarrow> safeParse schema v \<Longrightarrow> truthy v"
  by (cases v) (auto simp: safeParse_def)

lemma HEX_64_not_empty: "\<not> HEX_64 []"
  by (simp add: HEX_64_def)

lemma validateNanoAccountPrivateKey_bypass:
  "validateNanoAccountPrivateKey k True =
     (if safeParse HEX_64 k then Inr ()
      else Inl (Error (tagged ERROR_CONFIG (NANO_ACCOUNT_PRIVATE_KEY_PROPERTY @
             '' is not of a valid format (should be 64 hexadecimal characters)''))))"
  by (simp add: validateNanoAccountPrivateKey_def)

lemma HEX_64_sample: "HEX_64 SAMPLE_NANO_ACCOUNT_PRIVATE_KEY"
  by (simp add: HEX_64_def SAMPLE_NANO_ACCOUNT_PRIVATE_KEY_def is_hex_def)

lemma HEX_64_sample_2: "HEX_64 SAMPLE_NANO_ACCOUNT_PRIVATE_KEY_2"
  by (simp add: HEX_64_def SAMPLE_NANO_ACCOUNT_PRIVATE_KEY_2_def is_hex_def)

text \<open>
  Claim C9. Given a URL schema that rejects the empty string (as a URL format does),
  each of the three validators accepts a value exactly when it is a string that passes
  the schema (the URL schema, respectively 64 hexadecimal characters), whatever the flag
  \<open>bypassNullCheck\<close> is; every rejection is a configuration error; on a truthy value the
  flag changes nothing at all, and an empty or unset value is rejected with the flag
  and without it, the flag only selecting the message.
\<close>

theorem validators_accept_exactly_the_schema:
  assumes "\<not> URL_safeParse ext []"
  shows "(validateNanoRpcUrl ext v b = Inr () \<longleftrightarrow> safeParse (URL_safeParse ext) v) \<and>
         (validateNanoWorkGenerationUrl ext v b = Inr () \<longleftrightarrow> safeParse (URL_safeParse ext) v) \<and>
         (validateNanoAccountPrivateKey v b = Inr () \<longleftrightarrow> safeParse HEX_64 v) \<and>
         (\<forall>e. validateNanoRpcUrl ext v b = Inl e \<or>
              validateNanoWorkGenerationUrl ext v b = Inl e \<or>
              validateNanoAccountPrivateKey v b = Inl e \<longrightarrow> has_code ERROR_CONFIG e) \<and>
         (truthy v \<longrightarrow>
            validateNanoRpcUrl ext v True = validateNanoRpcUrl ext v False \<and>
            validateNanoWorkGenerationUrl ext v True = validateNanoWorkGenerationUrl ext v False \<and>
            validateNanoAccountPrivateKey v True = validateNanoAccountPrivateKey v False) \<and>
         (\<not> truthy v \<longrightarrow>
            (\<exists>e. validateNanoRpcUrl ext v False = Inl e) \<and>
            (\<exists>e. validateNanoRpcUrl ext v True = Inl e) \<and>
            (\<exists>e. validateNanoWorkGenerationUrl ext v False = Inl e) \<and>
            (\<exists>e. validateNanoWorkGenerationUrl ext v True = Inl e) \<and>
            (\<exists>e. validateNanoAccountPrivateKey v False = Inl e) \<and>
            (\<exists>e. validateNanoAccountPrivateKey v True = Inl e))"
proof -
  have u: "safeParse (URL_safeParse ext) v \<Longrightarrow> truthy v"
    using assms by (rule safeParse_truthy)
  have k: "safeParse HEX_64 v \<Longrightarrow> truthy v"
    using HEX_64_not_empty by (rule safeParse_truthy)
  have 1: "validateNanoRpcUrl ext v b = Inr () \<longleftrightarrow> safeParse (URL_safeParse ext) v"
    using u by (auto simp: validateNanoRpcUrl_def)
  have 2: "validateNanoWorkGenerationUrl ext v b = Inr () \<longleftrightarrow> safeParse (URL_safeParse ext) v"
    using u by (auto simp: validateNanoWorkGenerationUrl_def)
  have 3: "validateNanoAccountPrivateKey v b = Inr () \<longleftrightarrow> safeParse HEX_64 v"
    using k by (auto simp: validateNanoAccountPrivateKey_def)
  have 4: "\<forall>e. validateNanoRpcUrl ext v b = Inl e \<or>
              validateNanoWorkGenerationUrl ext v b = Inl e \<or>
              validateNanoAccountPrivateKey v b = Inl e \<longrightarrow> has_code ERROR_CONFIG e"
    by (auto simp: validateNanoRpcUrl_def validateNanoWorkGenerationUrl_def
        validateNanoAccountPrivateKey_def has_code_tagged split: if_splits)
  have 5: "truthy v \<longrightarrow>
            validateNanoRpcUrl ext v True = validateNanoRpcUrl ext v False \<and>
            validateNanoWorkGenerationUrl ext v True = validateNanoWorkGenerationUrl ext v False \<and>
            validateNanoAccountPrivateKey v True = validateNanoAccountPrivateKey v False"
    by (simp add: validateNanoRpcUrl_def validateNanoWorkGenerationUrl_def
        validateNanoAccountPrivateKey_def)
  have 6: "\<not> truthy v \<longrightarrow>
            (\<exists>e. validateNanoRpcUrl ext v False = Inl e) \<and>
            (\<exists>e. validateNanoRpcUrl ext v True = Inl e) \<and>
            (\<exists>e. validateNanoWorkGenerationUrl ext v False = Inl e) \<and>
            (\<exists>e. validateNanoWorkGenerationUrl ext v True = Inl e) \<and>
            (\<exists>e. validateNanoAccountPrivateKey v False = Inl e) \<and>
            (\<exists>e. validateNanoAccountPrivateKey v True = Inl e)"
    using u k
    by (auto simp: validateNanoRpcUrl_def validateNanoWorkGenerationUrl_def
        validateNanoAccountPrivateKey_def)
  from 1 2 3 4 5 6 show ?thesis by blast
qed

section \<open>The credential of the helper\<close>

text \<open>
  Claim C3. The private key follows a machine of two states. While a key is set,
  \<open>setNanoAccountPrivateKey\<close> throws a configuration error and leaves the helper, and so
  the stored key, as it was. \<open>clearNanoAccountPrivateKey\<close> always succeeds and leaves no
  key set. With no key set, and in particular after clearing, \<open>setNanoAccountPrivateKey\<close>
  with a key of valid format succeeds and stores that key.
\<close>

theorem private_key_two_state_machine:
  "(keySet h \<longrightarrow>
      (\<exists>e. setNanoAccountPrivateKey k h = (Inl e, h) \<and> has_code ERROR_CONFIG e)) \<and>
   fst (clearNanoAccountPrivateKey h) = Inr () \<and>
   \<not> keySet (snd (clearNanoAccountPrivateKey h)) \<and>
   (\<not> keySet h \<and> safeParse HEX_64 k \<longrightarrow>
      fst (setNanoAccountPrivateKey k h) = Inr () \<and>
      keySet (snd (setNanoAccountPrivateKey k h)) \<and>
      readProp (config (snd (setNanoAccountPrivateKey k h))) NANO_ACCOUNT_PRIVATE_KEY_PROPERTY = k) \<and>
   (safeParse HEX_64 k \<longrightarrow>
      fst (setNanoAccountPrivateKey k (snd (clearNanoAccountPrivateKey h))) = Inr () \<and>
      keySet (snd (setNanoAccountPrivateKey k (snd (clearNanoAccountPrivateKey h)))))"
proof -
  have t: "safeParse HEX_64 k \<Longrightarrow> truthy k"
    using HEX_64_not_empty by (rule safeParse_truthy)
  have 1: "keySet h \<longrightarrow>
      (\<exists>e. setNanoAccountPrivateKey k h = (Inl e, h) \<and> has_code ERROR_CONFIG e)"
    by (simp add: setNanoAccountPrivateKey_def validateNanoAccountPrivateKey_bypass
        keySet_def has_code_tagged)
  have 2: "fst (clearNanoAccountPrivateKey h) = Inr () \<and>
           \<not> keySet (snd (clearNanoAccountPrivateKey h))"
    by (simp add: clearNanoAccountPrivateKey_def keySet_def readProp_def)
  have 3: "\<not> keySet h' \<and> safeParse HEX_64 k \<longrightarrow>
      fst (setNanoAccountPrivateKey k h') = Inr () \<and>
      keySet (snd (setNanoAccountPrivateKey k h')) \<and>
      readProp (config (snd (setNanoAccountPrivateKey k h'))) NANO_ACCOUNT_PRIVATE_KEY_PROPERTY = k"
    for h'
    using t by (simp add: setNanoAccountPrivateKey_def validateNanoAccountPrivateKey_bypass
        keySet_def readProp_def)
  from 1 2 3 [of h] 3 [of "snd (clearNanoAccountPrivateKey h)"] show ?thesis by blast
qed

text \<open>
  Claim C10. Whenever \<open>setNanoAccountPrivateKey\<close> throws, the helper is left unchanged. It
  throws exactly when the key fails the format check or a key is already set. The
  format check comes first: a key of invalid format yields the format error, also
  while a key is set; the already-set error is reserved for keys of valid format.
\<close>

theorem setNanoAccountPrivateKey_error_atomic:
  "(\<forall>e. fst (setNanoAccountPrivateKey k h) = Inl e \<longrightarrow> snd (setNanoAccountPrivateKey k h) = h) \<and>
   ((\<exists>e. fst (setNanoAccountPrivateKey k h) = Inl e) \<longleftrightarrow> \<not> safeParse HEX_64 k \<or> keySet h) \<and>
   (\<not> safeParse HEX_64 k \<longrightarrow>
      setNanoAccountPrivateKey k h =
        (Inl (Error (tagged ERROR_CONFIG (NANO_ACCOUNT_PRIVATE_KEY_PROPERTY @
           '' is not of a valid format (should be 64 hexadecimal characters)''))), h)) \<and>
   (safeParse HEX_64 k \<and> keySet h \<longrightarrow>
      setNanoAccountPrivateKey k h =
        (Inl (Error (tagged ERROR_CONFIG
           ''Nano account private key already set. Manually clear with clearNanoAccountPrivateKey() first.'')), h))"
  by (simp add: setNanoAccountPrivateKey_def validateNanoAccountPrivateKey_bypass keySet_def)

text \<open>
  Claim C4. In every state of the helper the object returned by \<open>getConfig\<close> has no
  private-key property; this holds in particular right after a successful
  \<open>setNanoAccountPrivateKey\<close>, which does not change what \<open>getConfig\<close> returns. Two helpers
  whose configurations differ at most in the private-key property return the same
  object.
\<close>

theorem getConfig_never_shows_private_key:
  "NANO_ACCOUNT_PRIVATE_KEY_PROPERTY \<notin> dom (getConfig h) \<and>
   (\<forall>h'. setNanoAccountPrivateKey k h = (Inr (), h') \<longrightarrow>
      NANO_ACCOUNT_PRIVATE_KEY_PROPERTY \<notin> dom (getConfig h') \<and> getConfig h' = getConfig h) \<and>
   ((\<forall>p. p \<noteq> NANO_ACCOUNT_PRIVATE_KEY_PROPERTY \<longrightarrow> config h1 p = config h2 p) \<longrightarrow>
      getConfig h1 = getConfig h2)"
proof (intro conjI allI impI)
  show "NANO_ACCOUNT_PRIVATE_KEY_PROPERTY \<notin> dom (getConfig h)"
    by (simp add: getConfig_def NANO_ACCOUNT_PRIVATE_KEY_PROPERTY_def)
next
  fix h'
  assume s: "setNanoAccountPrivateKey k h = (Inr (), h')"
  show "NANO_ACCOUNT_PRIVATE_KEY_PROPERTY \<notin> dom (getConfig h')"
    by (simp add: getConfig_def NANO_ACCOUNT_PRIVATE_KEY_PROPERTY_def)
  from s have "config h' = (config h)(NANO_ACCOUNT_PRIVATE_KEY_PROPERTY \<mapsto> k)"
    by (auto simp: setNanoAccountPrivateKey_def split: sum.splits if_splits)
  then show "getConfig h' = getConfig h"
    by (simp add: getConfig_def NANO_ACCOUNT_PRIVATE_KEY_PROPERTY_def)
next
  assume a: "\<forall>p. p \<noteq> NANO_ACCOUNT_PRIVATE_KEY_PROPERTY \<longrightarrow> config h1 p = config h2 p"
  show "getConfig h1 = getConfig h2"
  proof
    fix p
    show "getConfig h1 p = getConfig h2 p"
      using a by (simp add: getConfig_def restrict_map_def NANO_ACCOUNT_PRIVATE_KEY_PROPERTY_def)
  qed
qed

section \<open>The RPC client\<close>

lemma getProp_no_field: "\<not> hasField v k \<Longrightarrow> getProp v k = JUndefined"
  by (cases v) (auto simp: map_of_eq_None_iff [THEN iffD2] split: option.splits)

lemma nanoRpcCall_events:
  "fst (nanoRpcCall ext url action params timeout flag) =
     [Fetch url (request_body action params) (case timeout of None \<Rightarrow> ONE_MINUTE | Some t \<Rightarrow> t)]"
  by (simp add: nanoRpcCall_def Let_def)

lemma nanoRpcCall_result:
  "snd (nanoRpcCall ext url action params timeout flag) =
     (case nanoRpcCall_try ext url (request_body action params)
             (case timeout of None \<Rightarrow> ONE_MINUTE | Some t \<Rightarrow> t) of
        Inl d \<Rightarrow> Inl (Error (if flag = Some True
                   then ''[error_nano_work_generation] Could not connect to Nano Work Generation URL''
                   else ''[error_nano_rpc_connection] Could not connect to Nano RPC URL''))
      | Inr json \<Rightarrow> Inr json)"
  by (cases flag)
     (auto simp: nanoRpcCall_def Let_def tagged_def ERROR_NANO_WORK_GENERATION_def
       ERROR_NANO_RPC_CONNECTION_def split: sum.splits)

lemma nanoRpcCall_try_not_nullish: "nanoRpcCall_try ext url body t = Inr json \<Longrightarrow> \<not> nullish json"
  by (auto simp: nanoRpcCall_try_def split: fetch_outcome.splits if_splits option.splits)

lemma nanoRpcCall_not_nullish:
  "snd (nanoRpcCall ext url action params timeout flag) = Inr json \<Longrightarrow> \<not> nullish json"
  by (auto simp: nanoRpcCall_result split: sum.splits dest: nanoRpcCall_try_not_nullish)

text \<open>
  Claim C7. Whenever \<open>nanoRpcCall\<close> fails, the error thrown is one of two fixed messages,
  chosen by the flag \<open>isGeneratingWork\<close> alone: the work-generation message when the flag
  is set, the RPC-connection message otherwise. The call fails exactly when its \<open>try\<close>
  block does, whatever the detail of that failure, which is dropped; a transport
  failure, a timeout, a non-success status and a truthy \<open>error\<close> property in the body all
  make it fail.
\<close>

theorem nanoRpcCall_two_stable_messages:
  "(\<forall>e. snd (nanoRpcCall ext url action params timeout flag) = Inl e \<longrightarrow>
        e = Error (if flag = Some True
              then ''[error_nano_work_generation] Could not connect to Nano Work Generation URL''
              else ''[error_nano_rpc_connection] Could not connect to Nano RPC URL'')) \<and>
   ((\<exists>e. snd (nanoRpcCall ext url action params timeout flag) = Inl e) \<longleftrightarrow>
    (\<exists>detail. nanoRpcCall_try ext url (request_body action params)
        (case timeout of None \<Rightarrow> ONE_MINUTE | Some t \<Rightarrow> t) = Inl detail)) \<and>
   ((\<exists>detail. fetch ext url (request_body action params)
        (case timeout of None \<Rightarrow> ONE_MINUTE | Some t \<Rightarrow> t) = FetchRejected detail) \<or>
    fetch ext url (request_body action params)
        (case timeout of None \<Rightarrow> ONE_MINUTE | Some t \<Rightarrow> t) = FetchAborted \<or>
    (\<exists>status txt parsed. fetch ext url (request_body action params)
        (case timeout of None \<Rightarrow> ONE_MINUTE | Some t \<Rightarrow> t) = Responded False status txt parsed) \<or>
    (\<exists>status txt json. fetch ext url (request_body action params)
        (case timeout of None \<Rightarrow> ONE_MINUTE | Some t \<Rightarrow> t) = Responded True status txt (Some json) \<and>
        truthy (getProp json ''error''))
    \<longrightarrow> (\<exists>e. snd (nanoRpcCall ext url action params timeout flag) = Inl e))"
proof (intro conjI)
  show "\<forall>e. snd (nanoRpcCall ext url action params timeout flag) = Inl e \<longrightarrow>
        e = Error (if flag = Some True
              then ''[error_nano_work_generation] Could not connect to Nano Work Generation URL''
              else ''[error_nano_rpc_connection] Could not connect to Nano RPC URL'')"
    by (auto simp: nanoRpcCall_result split: sum.splits)
next
  show "(\<exists>e. snd (nanoRpcCall ext url action params timeout flag) = Inl e) \<longleftrightarrow>
    (\<exists>detail. nanoRpcCall_try ext url (request_body action params)
        (case timeout of None \<Rightarrow> ONE_MINUTE | Some t \<Rightarrow> t) = Inl detail)"
    by (auto simp: nanoRpcCall_result split: sum.splits)
next
  show "(\<exists>detail. fetch ext url (request_body action params)
        (case timeout of None \<Rightarrow> ONE_MINUTE | Some t \<Rightarrow> t) = FetchRejected detail) \<or>
    fetch ext url (request_body action params)
        (case timeout of None \<Rightarrow> ONE_MINUTE | Some t \<Rightarrow> t) = FetchAborted \<or>
    (\<exists>status txt parsed. fetch ext url (request_body action params)
        (case timeout of None \<Rightarrow> ONE_MINUTE | Some t \<Rightarrow> t) = Responded False status txt parsed) \<or>
    (\<exists>status txt json. fetch ext url (request_body action params)
        (case timeout of None \<Rightarrow> ONE_MINUTE | Some t \<Rightarrow> t) = Responded True status txt (Some json) \<and>
        truthy (getProp json ''error''))
    \<longrightarrow> (\<exists>e. snd (nanoRpcCall ext url action params timeout flag) = Inl e)"
    by (auto simp: nanoRpcCall_result nanoRpcCall_try_def split: sum.splits if_splits)
qed

text \<open>
  Claim C8, as amended. For a response with a success status and a JSON body:
  \<open>nanoRpcCall\<close> fails when the \<open>error\<close> property of the body is truthy; it returns the
  parsed body when the body is not \<open>null\<close> and its \<open>error\<close> property is falsy (the empty
  string, zero, false, null), in particular when the body has no \<open>error\<close> field.
\<close>

theorem nanoRpcCall_error_field_by_truthiness:
  assumes "fetch ext url (request_body action params)
             (case timeout of None \<Rightarrow> ONE_MINUTE | Some t \<Rightarrow> t) =
           Responded True status txt (Some json)"
  shows "(truthy (getProp json ''error'') \<longrightarrow>
            (\<exists>e. snd (nanoRpcCall ext url action params timeout flag) = Inl e)) \<and>
         (\<not> nullish json \<and> \<not> truthy (getProp json ''error'') \<longrightarrow>
            snd (nanoRpcCall ext url action params timeout flag) = Inr json) \<and>
         (\<not> nullish json \<and> \<not> hasField json ''error'' \<longrightarrow>
            snd (nanoRpcCall ext url action params timeout flag) = Inr json)"
  using assms
  by (auto simp: nanoRpcCall_result nanoRpcCall_try_def getProp_no_field split: sum.splits if_splits)

section \<open>Sequencing and the events of the builder\<close>

lemma io_bind_Inl [simp]: "io_bind (tr, Inl e) f = (tr, Inl e)"
  by (simp add: io_bind_def)

lemma io_bind_Inr [simp]: "io_bind (tr, Inr x) f = (tr @ fst (f x), snd (f x))"
  by (simp add: io_bind_def split: prod.splits)

lemma fst_io_bind:
  "fst (io_bind m f) = fst m @ (case snd m of Inl e \<Rightarrow> [] | Inr x \<Rightarrow> fst (f x))"
  by (cases m) (auto split: sum.splits)

lemma snd_io_bind:
  "snd (io_bind m f) = (case snd m of Inl e \<Rightarrow> Inl e | Inr x \<Rightarrow> snd (f x))"
  by (cases m) (auto split: sum.splits)

lemma runBeforeHooks_events:
  "list_all is_before_hook (fst (runBeforeHooks i hs c)) \<and>
   map hook_index (fst (runBeforeHooks i hs c)) = [i..<i + length (fst (runBeforeHooks i hs c))] \<and>
   length (fst (runBeforeHooks i hs c)) \<le> length hs"
proof (induction hs arbitrary: i c)
  case Nil
  then show ?case by (simp add: io_return_def)
next
  case (Cons h hs)
  show ?case
  proof (cases "h c")
    case (Inl e)
    then show ?thesis by simp
  next
    case (Inr c')
    have "[i..<i + Suc n] = i # [Suc i..<Suc i + n]" for n
      by (simp add: upt_conv_Cons del: upt_Suc)
    with Cons [of "Suc i" c'] Inr show ?thesis
      by (simp del: upt_Suc)
  qed
qed

lemma runBeforeHooks_event:
  "ev \<in> set (fst (runBeforeHooks i hs c)) \<Longrightarrow> is_before_hook ev"
  using runBeforeHooks_events [of i hs c] by (simp add: list_all_iff)

lemma is_before_hook_other: "is_before_hook ev \<Longrightarrow> \<not> is_sign ev \<and> \<not> is_work_request ev"
  by (cases ev) auto

lemma runBeforeHooks_all_run:
  "snd (runBeforeHooks i hs c) = Inr c' \<Longrightarrow> length (fst (runBeforeHooks i hs c)) = length hs"
proof (induction hs arbitrary: i c)
  case Nil
  then show ?case by (simp add: io_return_def)
next
  case (Cons h hs)
  then show ?case by (cases "h c") auto
qed

lemma runBeforeHooks_append:
  "runBeforeHooks i (xs @ ys) c =
     io_bind (runBeforeHooks i xs c) (runBeforeHooks (i + length xs) ys)"
proof (induction xs arbitrary: i c)
  case Nil
  then show ?case by (simp add: io_return_def)
next
  case (Cons h xs)
  then show ?case
    by (cases "h c") (auto simp: fst_io_bind snd_io_bind split: sum.splits)
qed

lemma runAfterHooks_events:
  "ev \<in> set (fst (runAfterHooks i hs wk c)) \<Longrightarrow>
     \<not> is_before_hook ev \<and> \<not> is_sign ev \<and> \<not> is_work_request ev"
proof (induction hs arbitrary: i c)
  case Nil
  then show ?case by (simp add: io_return_def)
next
  case (Cons h hs)
  then show ?case
    by (cases "h (c\<lparr>work := Some wk\<rparr>)") auto
qed

lemma obtainWork_events:
  "ev \<in> set (fst (obtainWork ext cfg hash generator)) \<Longrightarrow> is_work_request ev"
  by (auto simp: obtainWork_def nanoRpcCall_def Let_def request_body_def
      split: option.splits prod.splits sum.splits)

lemma workGenerate_events:
  "ev \<in> set (fst (workGenerate ext cfg hash threshold generator)) \<Longrightarrow> is_work_request ev"
  by (auto simp: workGenerate_def Let_def fst_io_bind io_return_def io_throw_def
      dest: obtainWork_events split: sum.splits if_splits)

lemma is_work_request_other: "is_work_request ev \<Longrightarrow> \<not> is_before_hook ev \<and> \<not> is_sign ev"
  by (cases ev) auto

lemma workGenerate_result:
  "workGenerate ext cfg hash threshold generator =
     (fst (obtainWork ext cfg hash generator),
      case snd (obtainWork ext cfg hash generator) of
        Inl e \<Rightarrow> Inl e
      | Inr wk \<Rightarrow>
          if verifyWork ext hash wk
               (case threshold of None \<Rightarrow> SEND_BLOCK_WORK_THRESHOLD ext | Some t \<Rightarrow> t)
          then Inr wk
          else Inl (Error ''[error_nano_work_generation] Generated work is not valid''))"
  by (cases "obtainWork ext cfg hash generator")
     (auto simp: workGenerate_def Let_def io_return_def io_throw_def tagged_def
       ERROR_NANO_WORK_GENERATION_def split: sum.splits)

lemma createBlock_hooks_fail:
  "snd (runBeforeHooks 0 before
         \<lparr>representative = rep, balance = bal, link = lnk, previous = prev, work = None\<rparr>) = Inl e \<Longrightarrow>
   createBlock ext cfg rep bal lnk prev before after generator =
     (fst (runBeforeHooks 0 before
         \<lparr>representative = rep, balance = bal, link = lnk, previous = prev, work = None\<rparr>), Inl e)"
  by (cases "runBeforeHooks 0 before
         \<lparr>representative = rep, balance = bal, link = lnk, previous = prev, work = None\<rparr>")
     (simp add: createBlock_def)

lemma createBlock_work_fails:
  "snd (runBeforeHooks 0 before
         \<lparr>representative = rep, balance = bal, link = lnk, previous = prev, work = None\<rparr>) = Inr c \<Longrightarrow>
   snd (workGenerate ext cfg prev None generator) = Inl e \<Longrightarrow>
   createBlock ext cfg rep bal lnk prev before after generator =
     (fst (runBeforeHooks 0 before
         \<lparr>representative = rep, balance = bal, link = lnk, previous = prev, work = None\<rparr>) @
      fst (workGenerate ext cfg prev None generator), Inl e)"
  by (cases "runBeforeHooks 0 before
         \<lparr>representative = rep, balance = bal, link = lnk, previous = prev, work = None\<rparr>";
      cases "workGenerate ext cfg prev None generator")
     (simp add: createBlock_def)

lemma createBlock_events_split:
  "\<exists>rest. fst (createBlock ext cfg rep bal lnk prev before after generator) =
     fst (runBeforeHooks 0 before
         \<lparr>representative = rep, balance = bal, link = lnk, previous = prev, work = None\<rparr>) @ rest \<and>
     (\<forall>ev\<in>set rest. \<not> is_before_hook ev)"
  by (auto simp: createBlock_def fst_io_bind io_return_def io_throw_def
      dest: workGenerate_events runAfterHooks_events is_work_request_other
      split: sum.splits)

section \<open>Work generation and the block builder\<close>

text \<open>
  Claim C2. Whatever the hash, the threshold and the generator (the custom function or
  the RPC endpoint), a work value that \<open>workGenerate\<close> returns passes \<open>verifyWork\<close> against
  the threshold. When the generator call itself succeeds (the custom generator returns,
  or the RPC call returns a response, whose \<open>work\<close> property is taken) and the value does
  not pass, \<open>workGenerate\<close> throws the work-generation error for invalid work. Whenever
  \<open>workGenerate\<close> fails, \<open>createBlock\<close> fails as well, with that very error once the
  before-hooks have passed, and the signing routine is never called.
\<close>

theorem workGenerate_returns_only_verified_work:
  "(\<forall>tr wk. workGenerate ext cfg hash threshold generator = (tr, Inr wk) \<longrightarrow>
        verifyWork ext hash wk
          (case threshold of None \<Rightarrow> SEND_BLOCK_WORK_THRESHOLD ext | Some t \<Rightarrow> t)) \<and>
   (\<forall>tr wk. obtainWork ext cfg hash generator = (tr, Inr wk) \<and>
        \<not> verifyWork ext hash wk
            (case threshold of None \<Rightarrow> SEND_BLOCK_WORK_THRESHOLD ext | Some t \<Rightarrow> t) \<longrightarrow>
        workGenerate ext cfg hash threshold generator =
          (tr, Inl (Error ''[error_nano_work_generation] Generated work is not valid''))) \<and>
   (\<forall>g wk. generator = Some g \<and> g hash = Inr wk \<longrightarrow>
        obtainWork ext cfg hash generator = ([CustomWorkGeneratorCall hash], Inr wk)) \<and>
   (\<forall>tr json. generator = None \<and>
        nanoRpcCall ext
          (nullish_coalesce (readProp cfg ''NANO_WORK_GENERATION_URL'')
             (readProp cfg ''NANO_RPC_URL''))
          ''work_generate'' [(''hash'', hash)] (Some (5 * ONE_MINUTE)) (Some True) = (tr, Inr json) \<longrightarrow>
        obtainWork ext cfg hash generator = (tr, Inr (getProp json ''work''))) \<and>
   (\<forall>e. snd (workGenerate ext cfg hash None generator) = Inl e \<longrightarrow>
        (\<exists>e'. snd (createBlock ext cfg rep bal lnk hash before after generator) = Inl e') \<and>
        (\<forall>ev\<in>set (fst (createBlock ext cfg rep bal lnk hash before after generator)).
            \<not> is_sign ev) \<and>
        (\<forall>c. snd (runBeforeHooks 0 before
                 \<lparr>representative = rep, balance = bal, link = lnk, previous = hash,
                  work = None\<rparr>) = Inr c \<longrightarrow>
             snd (createBlock ext cfg rep bal lnk hash before after generator) = Inl e))"
proof (intro conjI allI impI)
  fix tr wk
  assume "workGenerate ext cfg hash threshold generator = (tr, Inr wk)"
  then show "verifyWork ext hash wk
          (case threshold of None \<Rightarrow> SEND_BLOCK_WORK_THRESHOLD ext | Some t \<Rightarrow> t)"
    by (auto simp: workGenerate_result split: sum.splits if_splits)
next
  fix tr wk
  assume "obtainWork ext cfg hash generator = (tr, Inr wk) \<and>
        \<not> verifyWork ext hash wk
            (case threshold of None \<Rightarrow> SEND_BLOCK_WORK_THRESHOLD ext | Some t \<Rightarrow> t)"
  then show "workGenerate ext cfg hash threshold generator =
          (tr, Inl (Error ''[error_nano_work_generation] Generated work is not valid''))"
    by (simp add: workGenerate_result)
next
  fix g wk
  assume "generator = Some g \<and> g hash = Inr wk"
  then show "obtainWork ext cfg hash generator = ([CustomWorkGeneratorCall hash], Inr wk)"
    by (simp add: obtainWork_def)
next
  fix tr json
  assume "generator = None \<and>
        nanoRpcCall ext
          (nullish_coalesce (readProp cfg ''NANO_WORK_GENERATION_URL'')
             (readProp cfg ''NANO_RPC_URL''))
          ''work_generate'' [(''hash'', hash)] (Some (5 * ONE_MINUTE)) (Some True) = (tr, Inr json)"
  then show "obtainWork ext cfg hash generator = (tr, Inr (getProp json ''work''))"
    by (simp add: obtainWork_def Let_def)
next
  fix e
  assume w: "snd (workGenerate ext cfg hash None generator) = Inl e"
  let ?B = "runBeforeHooks 0 before
              \<lparr>representative = rep, balance = bal, link = lnk, previous = hash, work = None\<rparr>"
  let ?C = "createBlock ext cfg rep bal lnk hash before after generator"
  have cases: "(\<exists>e'. ?C = (fst ?B, Inl e')) \<or> ?C = (fst ?B @ fst (workGenerate ext cfg hash None generator), Inl e)"
  proof (cases "snd ?B")
    case (Inl e')
    then show ?thesis using createBlock_hooks_fail by blast
  next
    case (Inr c)
    then show ?thesis using createBlock_work_fails [OF Inr w] by blast
  qed
  then show "\<exists>e'. snd ?C = Inl e'" by auto
  have b: "\<not> is_sign ev" if "ev \<in> set (fst ?B)" for ev
    using runBeforeHooks_event [OF that] is_before_hook_other by blast
  have g: "\<not> is_sign ev" if "ev \<in> set (fst (workGenerate ext cfg hash None generator))" for ev
    using workGenerate_events [OF that] is_work_request_other by blast
  from cases b g show "\<forall>ev\<in>set (fst ?C). \<not> is_sign ev" by auto
next
  fix e c
  assume w: "snd (workGenerate ext cfg hash None generator) = Inl e"
    and h: "snd (runBeforeHooks 0 before
                 \<lparr>representative = rep, balance = bal, link = lnk, previous = hash,
                  work = None\<rparr>) = Inr c"
  show "snd (createBlock ext cfg rep bal lnk hash before after generator) = Inl e"
    by (simp add: createBlock_work_fails [OF h w])
qed

text \<open>
  Claim C5. In \<open>createBlock\<close> the calls of the before-hooks come first, one after the other
  in the order of the registry (positions 0, 1, 2, ...), and nothing that follows them is
  a before-hook call; when none throws, every registered hook has run. When a hook
  throws, \<open>createBlock\<close> ends there with exactly that error: with the hooks before it
  having passed, the events are their calls and the call of the hook that threw, so that
  no later hook runs, and no event is a work request (neither a \<open>work_generate\<close> request
  nor a call of the custom generator).
\<close>

theorem before_hooks_first_and_abort:
  "list_all is_before_hook
     (fst (runBeforeHooks 0 before
        \<lparr>representative = rep, balance = bal, link = lnk, previous = prev, work = None\<rparr>)) \<and>
   map hook_index
     (fst (runBeforeHooks 0 before
        \<lparr>representative = rep, balance = bal, link = lnk, previous = prev, work = None\<rparr>)) =
     [0..<length (fst (runBeforeHooks 0 before
        \<lparr>representative = rep, balance = bal, link = lnk, previous = prev, work = None\<rparr>))] \<and>
   (\<exists>rest. fst (createBlock ext cfg rep bal lnk prev before after generator) =
        fst (runBeforeHooks 0 before
          \<lparr>representative = rep, balance = bal, link = lnk, previous = prev, work = None\<rparr>) @ rest \<and>
        (\<forall>ev\<in>set rest. \<not> is_before_hook ev)) \<and>
   (\<forall>c. snd (runBeforeHooks 0 before
          \<lparr>representative = rep, balance = bal, link = lnk, previous = prev, work = None\<rparr>) = Inr c \<longrightarrow>
        length (fst (runBeforeHooks 0 before
          \<lparr>representative = rep, balance = bal, link = lnk, previous = prev, work = None\<rparr>)) =
        length before) \<and>
   (\<forall>e. snd (runBeforeHooks 0 before
          \<lparr>representative = rep, balance = bal, link = lnk, previous = prev, work = None\<rparr>) = Inl e \<longrightarrow>
        createBlock ext cfg rep bal lnk prev before after generator =
          (fst (runBeforeHooks 0 before
             \<lparr>representative = rep, balance = bal, link = lnk, previous = prev, work = None\<rparr>),
           Inl e) \<and>
        (\<forall>ev\<in>set (fst (createBlock ext cfg rep bal lnk prev before after generator)).
            \<not> is_work_request ev)) \<and>
   (\<forall>hs1 h hs2 tr1 c1 e.
        before = hs1 @ h # hs2 \<and>
        runBeforeHooks 0 hs1
          \<lparr>representative = rep, balance = bal, link = lnk, previous = prev, work = None\<rparr> =
          (tr1, Inr c1) \<and>
        h c1 = Inl e \<longrightarrow>
        createBlock ext cfg rep bal lnk prev before after generator =
          (tr1 @ [BeforeHookCall (length hs1) c1], Inl e) \<and>
        length tr1 = length hs1)"
proof -
  let ?c0 = "\<lparr>representative = rep, balance = bal, link = lnk, previous = prev, work = None\<rparr>"
  let ?B = "runBeforeHooks 0 before ?c0"
  let ?C = "createBlock ext cfg rep bal lnk prev before after generator"
  have 1: "list_all is_before_hook (fst ?B)" and 2: "map hook_index (fst ?B) = [0..<length (fst ?B)]"
    using runBeforeHooks_events [of 0 before ?c0] by simp_all
  have 3: "\<exists>rest. fst ?C = fst ?B @ rest \<and> (\<forall>ev\<in>set rest. \<not> is_before_hook ev)"
    by (rule createBlock_events_split)
  have 4: "\<forall>c. snd ?B = Inr c \<longrightarrow> length (fst ?B) = length before"
    by (auto dest: runBeforeHooks_all_run)
  have 5: "\<forall>e. snd ?B = Inl e \<longrightarrow>
        ?C = (fst ?B, Inl e) \<and> (\<forall>ev\<in>set (fst ?C). \<not> is_work_request ev)"
  proof (intro allI impI)
    fix e
    assume f: "snd ?B = Inl e"
    have c: "?C = (fst ?B, Inl e)" by (rule createBlock_hooks_fail [OF f])
    have "\<not> is_work_request ev" if "ev \<in> set (fst ?B)" for ev
      using runBeforeHooks_event [OF that] is_before_hook_other by blast
    with c show "?C = (fst ?B, Inl e) \<and> (\<forall>ev\<in>set (fst ?C). \<not> is_work_request ev)"
      by simp
  qed
  have 6: "\<forall>hs1 h hs2 tr1 c1 e.
        before = hs1 @ h # hs2 \<and> runBeforeHooks 0 hs1 ?c0 = (tr1, Inr c1) \<and> h c1 = Inl e \<longrightarrow>
        ?C = (tr1 @ [BeforeHookCall (length hs1) c1], Inl e) \<and> length tr1 = length hs1"
  proof (intro allI impI)
    fix hs1 h hs2 tr1 c1 e
    assume a: "before = hs1 @ h # hs2 \<and> runBeforeHooks 0 hs1 ?c0 = (tr1, Inr c1) \<and> h c1 = Inl e"
    then have B: "?B = (tr1 @ [BeforeHookCall (length hs1) c1], Inl e)"
      by (simp add: runBeforeHooks_append)
    then have "snd ?B = Inl e" by simp
    from createBlock_hooks_fail [OF this] B
    have "?C = (tr1 @ [BeforeHookCall (length hs1) c1], Inl e)" by simp
    moreover from a have "length tr1 = length hs1"
      using runBeforeHooks_all_run [of 0 hs1 ?c0 c1] by simp
    ultimately show "?C = (tr1 @ [BeforeHookCall (length hs1) c1], Inl e) \<and> length tr1 = length hs1"
      by simp
  qed
  from 1 2 3 4 5 6 show ?thesis by blast
qed

section \<open>Send blocks for unopened accounts\<close>

lemma getAccountInfo_success:
  "getAccountInfo ext h acct = (tr, Inr info) \<Longrightarrow>
     validateNanoRpcUrl ext (readProp (config h) ''NANO_RPC_URL'') False = Inr () \<and>
     tr = [Fetch (readProp (config h) ''NANO_RPC_URL'')
             (request_body ''account_info'' [(''account'', acct), (''representative'', JStr ''true'')])
             ONE_MINUTE] \<and>
     \<not> nullish info"
  by (cases "validateNanoRpcUrl ext (readProp (config h) ''NANO_RPC_URL'') False";
      cases "nanoRpcCall ext (readProp (config h) ''NANO_RPC_URL'') ''account_info''
         [(''account'', acct), (''representative'', JStr ''true'')] None None")
     (use nanoRpcCall_events [of ext "readProp (config h) ''NANO_RPC_URL''" "''account_info''"
         "[(''account'', acct), (''representative'', JStr ''true'')]" None None]
       nanoRpcCall_not_nullish [of ext "readProp (config h) ''NANO_RPC_URL''" "''account_info''"
         "[(''account'', acct), (''representative'', JStr ''true'')]" None None info]
      in \<open>auto simp: getAccountInfo_def\<close>)

text \<open>
  Claim C6. When \<open>generateSendBlock\<close> gets as far as the \<open>account_info\<close> lookup (the
  configuration is valid and the account is derived) and the lookup returns a response
  without a \<open>frontier\<close> field, it throws the block-generation error for an unopened
  account, whatever the amount and the balance are: the outcome does not depend on the
  balance computation. The only event is the \<open>account_info\<close> request: no work is
  requested, no hook runs and nothing is signed.
\<close>

theorem generateSendBlock_without_frontier:
  assumes "validateNanoAccountPrivateKey
             (readProp (config h) NANO_ACCOUNT_PRIVATE_KEY_PROPERTY) False = Inr ()"
    and "validateNanoWorkGenerationUrl ext
             (readProp (config h) ''NANO_WORK_GENERATION_URL'') False = Inr ()"
    and "getAccount ext (config h) = Inr acct"
    and "getAccountInfo ext h (JStr acct) = (tr, Inr info)"
    and "\<not> hasField info ''frontier''"
  shows "generateSendBlock ext h payTo amount =
           (tr, Inl (Error ''[error_block_generation] Source account has no frontier (unopened account)'')) \<and>
         tr = [Fetch (readProp (config h) ''NANO_RPC_URL'')
                 (request_body ''account_info''
                    [(''account'', JStr acct), (''representative'', JStr ''true'')])
                 ONE_MINUTE] \<and>
         (\<forall>ev\<in>set (fst (generateSendBlock ext h payTo amount)).
            \<not> is_work_request ev \<and> \<not> is_sign ev \<and> \<not> is_before_hook ev)"
proof -
  from getAccountInfo_success [OF assms(4)]
  have v: "validateNanoRpcUrl ext (readProp (config h) ''NANO_RPC_URL'') False = Inr ()"
    and t: "tr = [Fetch (readProp (config h) ''NANO_RPC_URL'')
                 (request_body ''account_info''
                    [(''account'', JStr acct), (''representative'', JStr ''true'')])
                 ONE_MINUTE]"
    by simp_all
  have f: "\<not> truthy (getProp info ''frontier'')"
    using assms(5) by (simp add: getProp_no_field)
  have r: "generateSendBlock ext h payTo amount =
           (tr, Inl (Error ''[error_block_generation] Source account has no frontier (unopened account)''))"
    using v assms(1-4) f
    by (simp add: generateSendBlock_def Let_def io_throw_def tagged_def
        ERROR_BLOCK_GENERATION_def)
  have "\<not> is_work_request ev \<and> \<not> is_sign ev \<and> \<not> is_before_hook ev" if "ev \<in> set tr" for ev
    using that t by (simp add: request_body_def)
  with r t show ?thesis by simp
qed

section \<open>Concrete runs\<close>

text \<open>
  The theorems above, applied to the sample values: each run fixes the inputs, shows
  that they meet the conditions of its theorem and states what the theorem gives there.
\<close>

lemma sample_url_rejects_empty: "\<not> URL_safeParse sample_externals []"
  by (simp add: sample_externals_def)

theorem validators_accept_exactly_the_schema_witness:
  "\<not> URL_safeParse sample_externals [] \<and>
   truthy (JStr SAMPLE_NANO_RPC_URL) \<and>
   validateNanoRpcUrl sample_externals (JStr SAMPLE_NANO_RPC_URL) False = Inr () \<and>
   validateNanoRpcUrl sample_externals (JStr SAMPLE_NANO_RPC_URL) True = Inr () \<and>
   validateNanoAccountPrivateKey (JStr SAMPLE_NANO_RPC_URL) True
     = validateNanoAccountPrivateKey (JStr SAMPLE_NANO_RPC_URL) False \<and>
   (\<exists>e. validateNanoAccountPrivateKey (JStr SAMPLE_NANO_RPC_URL) True = Inl e \<and>
        has_code ERROR_CONFIG e) \<and>
   \<not> truthy JNull \<and>
   (\<exists>e. validateNanoWorkGenerationUrl sample_externals JNull True = Inl e)"
proof -
  have p: "safeParse (URL_safeParse sample_externals) (JStr SAMPLE_NANO_RPC_URL)"
    by (simp add: safeParse_def sample_externals_def SAMPLE_NANO_RPC_URL_def)
  have q: "\<not> safeParse HEX_64 (JStr SAMPLE_NANO_RPC_URL)"
    by (simp add: safeParse_def HEX_64_def SAMPLE_NANO_RPC_URL_def)
  have t: "truthy (JStr SAMPLE_NANO_RPC_URL)"
    by (simp add: SAMPLE_NANO_RPC_URL_def)
  have e: "\<exists>e. validateNanoAccountPrivateKey (JStr SAMPLE_NANO_RPC_URL) True = Inl e"
    by (simp add: validateNanoAccountPrivateKey_bypass q)
  have n: "\<not> truthy JNull" by simp
  from validators_accept_exactly_the_schema [OF sample_url_rejects_empty,
      of "JStr SAMPLE_NANO_RPC_URL" False]
    validators_accept_exactly_the_schema [OF sample_url_rejects_empty,
      of "JStr SAMPLE_NANO_RPC_URL" True]
    validators_accept_exactly_the_schema [OF sample_url_rejects_empty, of JNull True]
    sample_url_rejects_empty p q t e n
  show ?thesis by blast
qed

lemma sample_helper_config:
  "config sample_helper =
     [NANO_ACCOUNT_PRIVATE_KEY_PROPERTY \<mapsto> JStr SAMPLE_NANO_ACCOUNT_PRIVATE_KEY]"
  by (simp add: sample_helper_def setNanoAccountPrivateKey_def
      validateNanoAccountPrivateKey_bypass safeParse_def HEX_64_sample Helper_new_def readProp_def)

lemma keySet_sample_helper: "keySet sample_helper"
  by (simp add: keySet_def sample_helper_config readProp_def SAMPLE_NANO_ACCOUNT_PRIVATE_KEY_def)

theorem private_key_two_state_machine_witness:
  "keySet sample_helper \<and>
   (\<exists>e. setNanoAccountPrivateKey (JStr SAMPLE_NANO_ACCOUNT_PRIVATE_KEY_2) sample_helper
           = (Inl e, sample_helper) \<and> has_code ERROR_CONFIG e) \<and>
   \<not> keySet (snd (clearNanoAccountPrivateKey sample_helper)) \<and>
   safeParse HEX_64 (JStr SAMPLE_NANO_ACCOUNT_PRIVATE_KEY_2) \<and>
   fst (setNanoAccountPrivateKey (JStr SAMPLE_NANO_ACCOUNT_PRIVATE_KEY_2)
          (snd (clearNanoAccountPrivateKey sample_helper))) = Inr () \<and>
   \<not> keySet (Helper_new None) \<and>
   readProp (config (snd (setNanoAccountPrivateKey (JStr SAMPLE_NANO_ACCOUNT_PRIVATE_KEY_2)
       (Helper_new None)))) NANO_ACCOUNT_PRIVATE_KEY_PROPERTY
     = JStr SAMPLE_NANO_ACCOUNT_PRIVATE_KEY_2"
proof -
  have v: "safeParse HEX_64 (JStr SAMPLE_NANO_ACCOUNT_PRIVATE_KEY_2)"
    by (simp add: safeParse_def HEX_64_sample_2)
  have n: "\<not> keySet (Helper_new None)"
    by (simp add: keySet_def Helper_new_def readProp_def)
  from private_key_two_state_machine [of sample_helper "JStr SAMPLE_NANO_ACCOUNT_PRIVATE_KEY_2"]
    private_key_two_state_machine [of "Helper_new None" "JStr SAMPLE_NANO_ACCOUNT_PRIVATE_KEY_2"]
    keySet_sample_helper v n
  show ?thesis by blast
qed

theorem setNanoAccountPrivateKey_error_atomic_witness:
  "keySet sample_helper \<and>
   \<not> safeParse HEX_64 (JStr ''an_invalid_nano_private_key'') \<and>
   setNanoAccountPrivateKey (JStr ''an_invalid_nano_private_key'') sample_helper =
     (Inl (Error ''[error_config] NANO_ACCOUNT_PRIVATE_KEY is not of a valid format (should be 64 hexadecimal characters)''),
      sample_helper) \<and>
   safeParse HEX_64 (JStr SAMPLE_NANO_ACCOUNT_PRIVATE_KEY_2) \<and>
   setNanoAccountPrivateKey (JStr SAMPLE_NANO_ACCOUNT_PRIVATE_KEY_2) sample_helper =
     (Inl (Error ''[error_config] Nano account private key already set. Manually clear with clearNanoAccountPrivateKey() first.''),
      sample_helper)"
proof -
  have i: "\<not> safeParse HEX_64 (JStr ''an_invalid_nano_private_key'')"
    by (simp add: safeParse_def HEX_64_def)
  have v: "safeParse HEX_64 (JStr SAMPLE_NANO_ACCOUNT_PRIVATE_KEY_2)"
    by (simp add: safeParse_def HEX_64_sample_2)
  from setNanoAccountPrivateKey_error_atomic [of "JStr ''an_invalid_nano_private_key''" sample_helper]
    setNanoAccountPrivateKey_error_atomic [of "JStr SAMPLE_NANO_ACCOUNT_PRIVATE_KEY_2" sample_helper]
    keySet_sample_helper i v
  show ?thesis
    by (simp add: tagged_def ERROR_CONFIG_def NANO_ACCOUNT_PRIVATE_KEY_PROPERTY_def)
qed

theorem getConfig_never_shows_private_key_witness:
  "setNanoAccountPrivateKey (JStr SAMPLE_NANO_ACCOUNT_PRIVATE_KEY) (Helper_new None)
     = (Inr (), sample_helper) \<and>
   NANO_ACCOUNT_PRIVATE_KEY_PROPERTY \<notin> dom (getConfig sample_helper) \<and>
   getConfig sample_helper = getConfig (Helper_new None) \<and>
   config sample_helper NANO_ACCOUNT_PRIVATE_KEY_PROPERTY
     \<noteq> config (Helper_new None) NANO_ACCOUNT_PRIVATE_KEY_PROPERTY \<and>
   getConfig sample_helper = getConfig (snd (clearNanoAccountPrivateKey sample_helper))"
proof -
  have s: "setNanoAccountPrivateKey (JStr SAMPLE_NANO_ACCOUNT_PRIVATE_KEY) (Helper_new None)
             = (Inr (), sample_helper)"
    by (simp add: sample_helper_def setNanoAccountPrivateKey_def
        validateNanoAccountPrivateKey_bypass safeParse_def HEX_64_sample Helper_new_def readProp_def)
  have d: "config sample_helper NANO_ACCOUNT_PRIVATE_KEY_PROPERTY
             \<noteq> config (Helper_new None) NANO_ACCOUNT_PRIVATE_KEY_PROPERTY"
    by (simp add: sample_helper_config Helper_new_def)
  have a: "\<forall>p. p \<noteq> NANO_ACCOUNT_PRIVATE_KEY_PROPERTY \<longrightarrow>
        config sample_helper p = config (snd (clearNanoAccountPrivateKey sample_helper)) p"
    by (simp add: clearNanoAccountPrivateKey_def)
  from getConfig_never_shows_private_key
         [of sample_helper "JStr SAMPLE_NANO_ACCOUNT_PRIVATE_KEY"
             sample_helper "snd (clearNanoAccountPrivateKey sample_helper)"]
       getConfig_never_shows_private_key
         [of "Helper_new None" "JStr SAMPLE_NANO_ACCOUNT_PRIVATE_KEY"
             sample_helper "snd (clearNanoAccountPrivateKey sample_helper)"]
       s d a
  show ?thesis by blast
qed


theorem nanoRpcCall_two_stable_messages_witness:
  "fetch sample_externals (JStr SAMPLE_NANO_RPC_URL) (request_body ''telemetry'' []) ONE_MINUTE
     = FetchRejected ''unreachable'' \<and>
   snd (nanoRpcCall sample_externals (JStr SAMPLE_NANO_RPC_URL) ''telemetry'' [] None None)
     = Inl (Error ''[error_nano_rpc_connection] Could not connect to Nano RPC URL'') \<and>
   snd (nanoRpcCall sample_externals (JStr SAMPLE_NANO_RPC_URL) ''telemetry'' [] None (Some True))
     = Inl (Error ''[error_nano_work_generation] Could not connect to Nano Work Generation URL'') \<and>
   truthy (getProp (JObj [(''error'', JStr ''Block not found'')]) ''error'') \<and>
   snd (nanoRpcCall sample_externals (JStr SAMPLE_NANO_RPC_URL) ''block_info'' [] None None)
     = Inl (Error ''[error_nano_rpc_connection] Could not connect to Nano RPC URL'')"
proof -
  have f: "fetch sample_externals (JStr SAMPLE_NANO_RPC_URL) (request_body ''telemetry'' [])
             (case None of None \<Rightarrow> ONE_MINUTE | Some t \<Rightarrow> t) = FetchRejected ''unreachable''"
    by (simp add: sample_externals_def sample_fetch_def request_body_def)
  have g: "fetch sample_externals (JStr SAMPLE_NANO_RPC_URL) (request_body ''block_info'' [])
             (case None of None \<Rightarrow> ONE_MINUTE | Some t \<Rightarrow> t)
           = Responded True 200 [] (Some (JObj [(''error'', JStr ''Block not found'')]))"
    by (simp add: sample_externals_def sample_fetch_def request_body_def)
  have t: "truthy (getProp (JObj [(''error'', JStr ''Block not found'')]) ''error'')"
    by simp
  from nanoRpcCall_two_stable_messages
         [of sample_externals "JStr SAMPLE_NANO_RPC_URL" "''telemetry''" "[]" None None]
       nanoRpcCall_two_stable_messages
         [of sample_externals "JStr SAMPLE_NANO_RPC_URL" "''telemetry''" "[]" None "Some True"]
       nanoRpcCall_two_stable_messages
         [of sample_externals "JStr SAMPLE_NANO_RPC_URL" "''block_info''" "[]" None None]
       f g t
  show ?thesis by (auto simp del: getProp.simps)
qed

text \<open>
  The claim C8 as first stated fails on two bodies received with a success status: the
  body \<open>{"error": ""}\<close> has an explicit \<open>error\<close> field, and the call returns it as a success;
  the body \<open>null\<close> has no \<open>error\<close> field, and the call fails.
\<close>

theorem nanoRpcCall_falsy_error_field_counterexample:
  "hasField (JObj [(''error'', JStr [])]) ''error'' \<and>
   fetch sample_externals (JStr SAMPLE_NANO_RPC_URL) (request_body ''process'' []) ONE_MINUTE
     = Responded True 200 [] (Some (JObj [(''error'', JStr [])])) \<and>
   nanoRpcCall sample_externals (JStr SAMPLE_NANO_RPC_URL) ''process'' [] None None
     = ([Fetch (JStr SAMPLE_NANO_RPC_URL) [(''action'', JStr ''process'')] 60000],
        Inr (JObj [(''error'', JStr [])])) \<and>
   \<not> hasField JNull ''error'' \<and>
   fetch sample_externals (JStr SAMPLE_NANO_RPC_URL) (request_body ''version'' []) ONE_MINUTE
     = Responded True 200 [] (Some JNull) \<and>
   snd (nanoRpcCall sample_externals (JStr SAMPLE_NANO_RPC_URL) ''version'' [] None None)
     = Inl (Error ''[error_nano_rpc_connection] Could not connect to Nano RPC URL'')"
  by (simp add: nanoRpcCall_def nanoRpcCall_try_def sample_externals_def sample_fetch_def
      request_body_def ONE_MINUTE_def ONE_SECOND_def tagged_def ERROR_NANO_RPC_CONNECTION_def)

theorem nanoRpcCall_error_field_by_truthiness_witness:
  "fetch sample_externals (JStr SAMPLE_NANO_RPC_URL) (request_body ''block_info'' []) ONE_MINUTE
     = Responded True 200 [] (Some (JObj [(''error'', JStr ''Block not found'')])) \<and>
   truthy (getProp (JObj [(''error'', JStr ''Block not found'')]) ''error'') \<and>
   (\<exists>e. snd (nanoRpcCall sample_externals (JStr SAMPLE_NANO_RPC_URL) ''block_info'' [] None None)
          = Inl e) \<and>
   fetch sample_externals (JStr SAMPLE_NANO_RPC_URL) (request_body ''process'' []) ONE_MINUTE
     = Responded True 200 [] (Some (JObj [(''error'', JStr [])])) \<and>
   \<not> nullish (JObj [(''error'', JStr [])]) \<and>
   \<not> truthy (getProp (JObj [(''error'', JStr [])]) ''error'') \<and>
   snd (nanoRpcCall sample_externals (JStr SAMPLE_NANO_RPC_URL) ''process'' [] None None)
     = Inr (JObj [(''error'', JStr [])]) \<and>
   fetch sample_externals (JStr SAMPLE_NANO_RPC_URL) (request_body ''account_info'' []) ONE_MINUTE
     = Responded True 200 []
         (Some (JObj [(''balance'', JStr ''50''), (''representative'', JStr ''nano_rep'')])) \<and>
   \<not> hasField (JObj [(''balance'', JStr ''50''), (''representative'', JStr ''nano_rep'')]) ''error'' \<and>
   snd (nanoRpcCall sample_externals (JStr SAMPLE_NANO_RPC_URL) ''account_info'' [] None None)
     = Inr (JObj [(''balance'', JStr ''50''), (''representative'', JStr ''nano_rep'')])"
proof -
  have f1: "fetch sample_externals (JStr SAMPLE_NANO_RPC_URL) (request_body ''block_info'' [])
              (case None of None \<Rightarrow> ONE_MINUTE | Some t \<Rightarrow> t)
            = Responded True 200 [] (Some (JObj [(''error'', JStr ''Block not found'')]))"
    by (simp add: sample_externals_def sample_fetch_def request_body_def)
  have f2: "fetch sample_externals (JStr SAMPLE_NANO_RPC_URL) (request_body ''process'' [])
              (case None of None \<Rightarrow> ONE_MINUTE | Some t \<Rightarrow> t)
            = Responded True 200 [] (Some (JObj [(''error'', JStr [])]))"
    by (simp add: sample_externals_def sample_fetch_def request_body_def)
  have f3: "fetch sample_externals (JStr SAMPLE_NANO_RPC_URL) (request_body ''account_info'' [])
              (case None of None \<Rightarrow> ONE_MINUTE | Some t \<Rightarrow> t)
            = Responded True 200 []
                (Some (JObj [(''balance'', JStr ''50''), (''representative'', JStr ''nano_rep'')]))"
    by (simp add: sample_externals_def sample_fetch_def request_body_def)
  have p1: "truthy (getProp (JObj [(''error'', JStr ''Block not found'')]) ''error'')"
    by simp
  have p2: "\<not> nullish (JObj [(''error'', JStr [])])"
    and p3: "\<not> truthy (getProp (JObj [(''error'', JStr [])]) ''error'')"
    by simp_all
  have p4: "\<not> nullish (JObj [(''balance'', JStr ''50''), (''representative'', JStr ''nano_rep'')])"
    and p5: "\<not> hasField (JObj [(''balance'', JStr ''50''), (''representative'', JStr ''nano_rep'')])
               ''error''"
    by simp_all
  from nanoRpcCall_error_field_by_truthiness [OF f1, of None]
       nanoRpcCall_error_field_by_truthiness [OF f2, of None]
       nanoRpcCall_error_field_by_truthiness [OF f3, of None]
       f1 f2 f3 p1 p2 p3 p4 p5
  show ?thesis by (simp del: getProp.simps hasField.simps nullish.simps)
qed

lemma readProp_sample_config:
  "readProp sample_config ''NANO_RPC_URL'' = JStr SAMPLE_NANO_RPC_URL"
  "readProp sample_config ''NANO_WORK_GENERATION_URL'' = JStr SAMPLE_NANO_WORK_GENERATION_URL"
  "readProp sample_config NANO_ACCOUNT_PRIVATE_KEY_PROPERTY = JStr SAMPLE_NANO_ACCOUNT_PRIVATE_KEY"
  by (simp_all add: readProp_def sample_config_def NANO_ACCOUNT_PRIVATE_KEY_PROPERTY_def)

lemma config_configured_helper: "config configured_helper = sample_config"
  by (rule ext)
     (simp add: configured_helper_def Helper_new_def readProp_sample_config nullish_coalesce_def,
      simp add: sample_config_def)

text \<open>
  A complete run of the builder with a custom generator whose work verifies: the hook
  before, the generator, the hook after with the work in its context, the signing
  routine, and the block with its legacy address prefix rewritten.
\<close>

lemma createBlock_sample_run:
  "createBlock sample_externals sample_config (JStr ''nano_rep'') (JStr ''20'')
     (JStr ''nano_dest'') (JStr ''D1C14068'') [passing_hook] [passing_hook]
     (Some sample_work_generator) =
     ([BeforeHookCall 0
         \<lparr>representative = JStr ''nano_rep'', balance = JStr ''20'', link = JStr ''nano_dest'',
          previous = JStr ''D1C14068'', work = None\<rparr>,
       CustomWorkGeneratorCall (JStr ''D1C14068''),
       AfterHookCall 0
         \<lparr>representative = JStr ''nano_rep'', balance = JStr ''20'', link = JStr ''nano_dest'',
          previous = JStr ''D1C14068'', work = Some (JStr ''baeb18003600c19c'')\<rparr>,
       SignCall (JStr SAMPLE_NANO_ACCOUNT_PRIVATE_KEY) (JStr ''nano_rep'') (JStr ''20'')
         (JStr ''baeb18003600c19c'') (JStr ''nano_dest'') (JStr ''D1C14068'')],
      Inr \<lparr>block_type = ''state'', account = ''nano_'' @ rev SAMPLE_NANO_ACCOUNT_PRIVATE_KEY,
           block_previous = ''D1C14068'', block_representative = ''nano_rep'',
           block_balance = ''20'', block_link = ''nano_dest'',
           block_work = ''baeb18003600c19c'', signature = ''signed''\<rparr>)"
  by (simp add: createBlock_def workGenerate_result obtainWork_def sample_work_generator_def
      passing_hook_def io_return_def readProp_sample_config sample_externals_def text_of_def
      XRB_PREFIX_def NANO_PREFIX_def)

theorem workGenerate_returns_only_verified_work_witness:
  "obtainWork sample_externals sample_config (JStr ''D1C14068'') None =
     ([Fetch (JStr SAMPLE_NANO_WORK_GENERATION_URL)
         [(''action'', JStr ''work_generate''), (''hash'', JStr ''D1C14068'')] 300000],
      Inr (JStr ''0000000000000000'')) \<and>
   \<not> verifyWork sample_externals (JStr ''D1C14068'') (JStr ''0000000000000000'')
       (SEND_BLOCK_WORK_THRESHOLD sample_externals) \<and>
   workGenerate sample_externals sample_config (JStr ''D1C14068'') None None =
     ([Fetch (JStr SAMPLE_NANO_WORK_GENERATION_URL)
         [(''action'', JStr ''work_generate''), (''hash'', JStr ''D1C14068'')] 300000],
      Inl (Error ''[error_nano_work_generation] Generated work is not valid'')) \<and>
   snd (createBlock sample_externals sample_config (JStr ''nano_rep'') (JStr ''20'')
          (JStr ''nano_dest'') (JStr ''D1C14068'') [passing_hook] [passing_hook] None) =
     Inl (Error ''[error_nano_work_generation] Generated work is not valid'') \<and>
   filter is_sign
     (fst (createBlock sample_externals sample_config (JStr ''nano_rep'') (JStr ''20'')
          (JStr ''nano_dest'') (JStr ''D1C14068'') [passing_hook] [passing_hook] None)) = [] \<and>
   workGenerate sample_externals sample_config (JStr ''D1C14068'') None
       (Some sample_work_generator) =
     ([CustomWorkGeneratorCall (JStr ''D1C14068'')], Inr (JStr ''baeb18003600c19c'')) \<and>
   verifyWork sample_externals (JStr ''D1C14068'') (JStr ''baeb18003600c19c'')
     (SEND_BLOCK_WORK_THRESHOLD sample_externals)"
proof -
  let ?tr = "[Fetch (JStr SAMPLE_NANO_WORK_GENERATION_URL)
         [(''action'', JStr ''work_generate''), (''hash'', JStr ''D1C14068'')] 300000]"
  have o: "obtainWork sample_externals sample_config (JStr ''D1C14068'') None =
     (?tr, Inr (JStr ''0000000000000000''))"
    by (simp add: obtainWork_def readProp_sample_config nullish_coalesce_def nanoRpcCall_def
        nanoRpcCall_try_def request_body_def sample_externals_def sample_fetch_def
        ONE_MINUTE_def ONE_SECOND_def)
  have v: "\<not> verifyWork sample_externals (JStr ''D1C14068'') (JStr ''0000000000000000'')
       (case None of None \<Rightarrow> SEND_BLOCK_WORK_THRESHOLD sample_externals | Some t \<Rightarrow> t)"
    by (simp add: sample_externals_def)
  have h: "snd (runBeforeHooks 0 [passing_hook]
             \<lparr>representative = JStr ''nano_rep'', balance = JStr ''20'', link = JStr ''nano_dest'',
              previous = JStr ''D1C14068'', work = None\<rparr>) =
           Inr \<lparr>representative = JStr ''nano_rep'', balance = JStr ''20'', link = JStr ''nano_dest'',
              previous = JStr ''D1C14068'', work = None\<rparr>"
    by (simp add: passing_hook_def io_return_def)
  note t = workGenerate_returns_only_verified_work
    [of sample_externals sample_config "JStr ''D1C14068''" None None
        "JStr ''nano_rep''" "JStr ''20''" "JStr ''nano_dest''" "[passing_hook]" "[passing_hook]"]
  from t o v have w: "workGenerate sample_externals sample_config (JStr ''D1C14068'') None None =
     (?tr, Inl (Error ''[error_nano_work_generation] Generated work is not valid''))"
    by blast
  then have "snd (workGenerate sample_externals sample_config (JStr ''D1C14068'') None None) =
     Inl (Error ''[error_nano_work_generation] Generated work is not valid'')"
    by simp
  with t h have "snd (createBlock sample_externals sample_config (JStr ''nano_rep'') (JStr ''20'')
          (JStr ''nano_dest'') (JStr ''D1C14068'') [passing_hook] [passing_hook] None) =
     Inl (Error ''[error_nano_work_generation] Generated work is not valid'') \<and>
     (\<forall>ev\<in>set (fst (createBlock sample_externals sample_config (JStr ''nano_rep'') (JStr ''20'')
          (JStr ''nano_dest'') (JStr ''D1C14068'') [passing_hook] [passing_hook] None)).
        \<not> is_sign ev)"
    by blast
  moreover have g: "workGenerate sample_externals sample_config (JStr ''D1C14068'') None
       (Some sample_work_generator) =
     ([CustomWorkGeneratorCall (JStr ''D1C14068'')], Inr (JStr ''baeb18003600c19c''))"
    by (simp add: workGenerate_result obtainWork_def sample_work_generator_def
        sample_externals_def)
  moreover from g workGenerate_returns_only_verified_work
    [of sample_externals sample_config "JStr ''D1C14068''" None "Some sample_work_generator"]
  have "verifyWork sample_externals (JStr ''D1C14068'') (JStr ''baeb18003600c19c'')
     (case None of None \<Rightarrow> SEND_BLOCK_WORK_THRESHOLD sample_externals | Some t \<Rightarrow> t)"
    by blast
  ultimately show ?thesis
    using o v w by (simp add: filter_empty_conv)
qed

theorem before_hooks_first_and_abort_witness:
  "runBeforeHooks 0 [passing_hook]
     \<lparr>representative = JStr ''nano_rep'', balance = JStr ''20'', link = JStr ''nano_dest'',
      previous = JStr ''D1C14068'', work = None\<rparr> =
     ([BeforeHookCall 0
         \<lparr>representative = JStr ''nano_rep'', balance = JStr ''20'', link = JStr ''nano_dest'',
          previous = JStr ''D1C14068'', work = None\<rparr>],
      Inr \<lparr>representative = JStr ''nano_rep'', balance = JStr ''20'', link = JStr ''nano_dest'',
          previous = JStr ''D1C14068'', work = None\<rparr>) \<and>
   failing_hook
     \<lparr>representative = JStr ''nano_rep'', balance = JStr ''20'', link = JStr ''nano_dest'',
      previous = JStr ''D1C14068'', work = None\<rparr> = Inl (Error ''hook failed'') \<and>
   createBlock sample_externals sample_config (JStr ''nano_rep'') (JStr ''20'')
     (JStr ''nano_dest'') (JStr ''D1C14068'') [passing_hook, failing_hook, passing_hook] [] None =
     ([BeforeHookCall 0
         \<lparr>representative = JStr ''nano_rep'', balance = JStr ''20'', link = JStr ''nano_dest'',
          previous = JStr ''D1C14068'', work = None\<rparr>,
       BeforeHookCall 1
         \<lparr>representative = JStr ''nano_rep'', balance = JStr ''20'', link = JStr ''nano_dest'',
          previous = JStr ''D1C14068'', work = None\<rparr>],
      Inl (Error ''hook failed''))"
proof -
  let ?c = "\<lparr>representative = JStr ''nano_rep'', balance = JStr ''20'', link = JStr ''nano_dest'',
      previous = JStr ''D1C14068'', work = None\<rparr>"
  have r: "runBeforeHooks 0 [passing_hook] ?c = ([BeforeHookCall 0 ?c], Inr ?c)"
    by (simp add: passing_hook_def io_return_def)
  have f: "failing_hook ?c = Inl (Error ''hook failed'')"
    by (simp add: failing_hook_def)
  have l: "[passing_hook, failing_hook, passing_hook] = [passing_hook] @ failing_hook # [passing_hook]"
    by simp
  from before_hooks_first_and_abort
         [of "[passing_hook, failing_hook, passing_hook]" "JStr ''nano_rep''" "JStr ''20''"
             "JStr ''nano_dest''" "JStr ''D1C14068''" sample_externals sample_config "[]" None]
       r f l
  have "createBlock sample_externals sample_config (JStr ''nano_rep'') (JStr ''20'')
     (JStr ''nano_dest'') (JStr ''D1C14068'') [passing_hook, failing_hook, passing_hook] [] None =
     ([BeforeHookCall 0 ?c] @ [BeforeHookCall (length [passing_hook]) ?c], Inl (Error ''hook failed''))"
    by blast
  with r f show ?thesis by simp
qed

theorem generateSendBlock_without_frontier_witness:
  "validateNanoAccountPrivateKey
     (readProp (config configured_helper) NANO_ACCOUNT_PRIVATE_KEY_PROPERTY) False = Inr () \<and>
   validateNanoWorkGenerationUrl sample_externals
     (readProp (config configured_helper) ''NANO_WORK_GENERATION_URL'') False = Inr () \<and>
   getAccount sample_externals (config configured_helper) =
     Inr (''xrb_'' @ rev SAMPLE_NANO_ACCOUNT_PRIVATE_KEY) \<and>
   getAccountInfo sample_externals configured_helper
       (JStr (''xrb_'' @ rev SAMPLE_NANO_ACCOUNT_PRIVATE_KEY)) =
     ([Fetch (JStr SAMPLE_NANO_RPC_URL)
         [(''action'', JStr ''account_info''),
          (''account'', JStr (''xrb_'' @ rev SAMPLE_NANO_ACCOUNT_PRIVATE_KEY)),
          (''representative'', JStr ''true'')] 60000],
      Inr (JObj [(''balance'', JStr ''50''), (''representative'', JStr ''nano_rep'')])) \<and>
   \<not> hasField (JObj [(''balance'', JStr ''50''), (''representative'', JStr ''nano_rep'')])
       ''frontier'' \<and>
   generateSendBlock sample_externals configured_helper ''nano_dest'' ''30'' =
     ([Fetch (JStr SAMPLE_NANO_RPC_URL)
         [(''action'', JStr ''account_info''),
          (''account'', JStr (''xrb_'' @ rev SAMPLE_NANO_ACCOUNT_PRIVATE_KEY)),
          (''representative'', JStr ''true'')] 60000],
      Inl (Error ''[error_block_generation] Source account has no frontier (unopened account)''))"
proof -
  let ?acct = "''xrb_'' @ rev SAMPLE_NANO_ACCOUNT_PRIVATE_KEY"
  let ?tr = "[Fetch (JStr SAMPLE_NANO_RPC_URL)
         [(''action'', JStr ''account_info''), (''account'', JStr ?acct),
          (''representative'', JStr ''true'')] 60000]"
  let ?info = "JObj [(''balance'', JStr ''50''), (''representative'', JStr ''nano_rep'')]"
  have k: "validateNanoAccountPrivateKey
     (readProp (config configured_helper) NANO_ACCOUNT_PRIVATE_KEY_PROPERTY) False = Inr ()"
    using HEX_64_sample safeParse_truthy [of HEX_64 "JStr SAMPLE_NANO_ACCOUNT_PRIVATE_KEY"]
    by (simp add: config_configured_helper readProp_sample_config validateNanoAccountPrivateKey_def
        safeParse_def HEX_64_not_empty)
  have w: "validateNanoWorkGenerationUrl sample_externals
     (readProp (config configured_helper) ''NANO_WORK_GENERATION_URL'') False = Inr ()"
    by (simp add: config_configured_helper readProp_sample_config validateNanoWorkGenerationUrl_def
        safeParse_def sample_externals_def SAMPLE_NANO_WORK_GENERATION_URL_def)
  have a: "getAccount sample_externals (config configured_helper) = Inr ?acct"
    by (simp add: config_configured_helper readProp_sample_config getAccount_def
        sample_externals_def)
  have i: "getAccountInfo sample_externals configured_helper (JStr ?acct) = (?tr, Inr ?info)"
    by (simp add: getAccountInfo_def config_configured_helper readProp_sample_config
        validateNanoRpcUrl_def safeParse_def nanoRpcCall_def nanoRpcCall_try_def request_body_def
        sample_externals_def sample_fetch_def SAMPLE_NANO_RPC_URL_def ONE_MINUTE_def
        ONE_SECOND_def)
  have n: "\<not> hasField ?info ''frontier''" by simp
  from generateSendBlock_without_frontier [OF k w a i n, of "''nano_dest''" "''30''"] k w a i n
  show ?thesis by simp
qed

end
